theory Spec2Isabelle
  imports Complex_Main "HOL-Library.AList" "HOL-Library.Sublist"
begin

section \<open>Text preprocessing (notebook cell 1)\<close>

text \<open>
  A Python \<open>str\<close> is a sequence of code points, here natural numbers. What
  \<open>str.isupper\<close>, \<open>str.lower\<close> and \<open>str.isspace\<close> do with a character is written
  out for the code points below 256 (ASCII and Latin-1); from 256 on it is read off the
  interpreter's Unicode tables, which are a parameter. The lowercase of a character may
  be several characters, and from 256 on it may depend on the characters before and after
  it (as that of the Greek capital sigma does).
\<close>

type_synonym str = "nat list"

definition ascii :: "string \<Rightarrow> str" where
  \<comment> \<open>the Python string of an ASCII literal\<close>
  "ascii s = map of_char s"

record unicode =
  isupper_from_256 :: "nat \<Rightarrow> bool"
  lower_from_256 :: "str \<Rightarrow> nat \<Rightarrow> str \<Rightarrow> str"
    \<comment> \<open>the characters before, the character, the characters after\<close>
  isspace_from_256 :: "nat \<Rightarrow> bool"

definition isupper :: "unicode \<Rightarrow> nat \<Rightarrow> bool" where
  \<comment> \<open>\<open>str.isupper\<close> on one character; below 256 these are A to Z, and U+00C0 to U+00DE
      without U+00D7\<close>
  "isupper u c =
     (if c < 256 then (65 \<le> c \<and> c \<le> 90) \<or> (192 \<le> c \<and> c \<le> 222 \<and> c \<noteq> 215)
      else isupper_from_256 u c)"

definition lower_char :: "unicode \<Rightarrow> str \<Rightarrow> nat \<Rightarrow> str \<Rightarrow> str" where
  \<comment> \<open>\<open>str.lower\<close> on one character of a string; below 256 an uppercase letter moves
      up by 32 and every other character stays\<close>
  "lower_char u before c after =
     (if c < 256 then (if isupper u c then [c + 32] else [c])
      else lower_from_256 u before c after)"

fun lower_from :: "unicode \<Rightarrow> str \<Rightarrow> str \<Rightarrow> str" where
  \<comment> \<open>the lowercase of the rest of a string, given the characters before it\<close>
  "lower_from u before [] = []"
| "lower_from u before (c # cs) = lower_char u before c cs @ lower_from u (before @ [c]) cs"

definition lower :: "unicode \<Rightarrow> str \<Rightarrow> str" where
  \<comment> \<open>\<open>text.lower()\<close>\<close>
  "lower u s = lower_from u [] s"

definition punctuation :: str where
  \<comment> \<open>\<open>string.punctuation\<close>, the 32 ASCII punctuation characters, in order\<close>
  "punctuation =
     ascii [CHR ''!'', CHR 0x22, CHR ''#'', CHR ''$'', CHR ''%'', CHR ''&'', CHR 0x27, CHR ''('',
            CHR '')'', CHR ''*'', CHR ''+'', CHR '','', CHR ''-'', CHR ''.'', CHR ''/'',
            CHR '':'', CHR '';'', CHR ''<'', CHR ''='', CHR ''>'', CHR ''?'', CHR ''@'',
            CHR ''['', CHR 0x5C, CHR '']'', CHR ''^'', CHR ''_'', CHR 0x60, CHR ''{'',
            CHR ''|'', CHR ''}'', CHR ''~'']"

definition remove_punctuation :: "str \<Rightarrow> str" where
  \<comment> \<open>\<open>text.translate(str.maketrans('', '', string.punctuation))\<close>: the table maps each
      punctuation character to \<open>None\<close>, so \<open>translate\<close> deletes exactly those\<close>
  "remove_punctuation s = filter (\<lambda>c. c \<notin> set punctuation) s"

definition isspace :: "unicode \<Rightarrow> nat \<Rightarrow> bool" where
  \<comment> \<open>\<open>str.isspace\<close> on one character; below 256 these are U+0009 to U+000D, U+001C to
      U+0020, U+0085 and U+00A0\<close>
  "isspace u c =
     (if c < 256 then (9 \<le> c \<and> c \<le> 13) \<or> (28 \<le> c \<and> c \<le> 32) \<or> c = 133 \<or> c = 160
      else isspace_from_256 u c)"

function split :: "unicode \<Rightarrow> str \<Rightarrow> str list" where
  \<comment> \<open>\<open>text.split()\<close> with no separator: skip a run of whitespace, then take the
      characters up to the next whitespace as one token; no token is empty\<close>
  "split u [] = []"
| "split u (c # cs) =
     (if isspace u c then split u cs
      else (c # takeWhile (\<lambda>d. \<not> isspace u d) cs)
           # split u (dropWhile (\<lambda>d. \<not> isspace u d) cs))"
  by pat_completeness auto
termination
  by (relation "measure (\<lambda>(u, s). length s)") (auto simp: less_Suc_eq_le length_dropWhile_le)

fun join :: "str list \<Rightarrow> str" where
  \<comment> \<open>\<open>' '.join(tokens)\<close>; the space is the code point 32\<close>
  "join [] = []"
| "join [t] = t"
| "join (t # ts) = t @ 32 # join ts"

definition preprocess_text :: "unicode \<Rightarrow> str set \<Rightarrow> str \<Rightarrow> str" where
  \<comment> \<open>\<open>preprocess_text(text)\<close>; the second argument is the constant
      \<open>ENGLISH_STOP_WORDS\<close>, a frozen set of strings imported from scikit-learn\<close>
  "preprocess_text u stop_words text =
     (let text = lower u text;
          text = remove_punctuation text;
          tokens = split u text;
          tokens = filter (\<lambda>word. word \<notin> stop_words) tokens
      in join tokens)"

section \<open>Data frames and exceptions\<close>

datatype cell = Str str | Num int | NaN
  \<comment> \<open>one value of a column: a Python \<open>str\<close>, a number, or the missing value (a float)\<close>

type_synonym series = "cell list"

type_synonym dataframe = "(str \<times> series) list"
  \<comment> \<open>the columns in order, each under its name\<close>

datatype exn =
    FileNotFoundError
  | ParserError
  | KeyError str
  | AttributeError
  | ValueError
  | NameError string

definition n_rows :: "dataframe \<Rightarrow> nat" where
  "n_rows df = (case df of [] \<Rightarrow> 0 | (name, values) # rest \<Rightarrow> length values)"

definition rectangular :: "dataframe \<Rightarrow> bool" where
  \<comment> \<open>every column has one value per row, as in every frame \<open>read_csv\<close> returns\<close>
  "rectangular df = list_all (\<lambda>(name, values). length values = n_rows df) df"

definition getitem :: "dataframe \<Rightarrow> str \<Rightarrow> exn + series" where
  \<comment> \<open>\<open>dataset[name]\<close>\<close>
  "getitem df name =
     (case map_of df name of None \<Rightarrow> Inl (KeyError name) | Some values \<Rightarrow> Inr values)"

definition setitem :: "dataframe \<Rightarrow> str \<Rightarrow> series \<Rightarrow> dataframe" where
  \<comment> \<open>\<open>dataset[name] = values\<close>: replaces the column, or appends a new one\<close>
  "setitem df name values = AList.update name values df"

fun call_preprocess_text :: "unicode \<Rightarrow> str set \<Rightarrow> cell \<Rightarrow> exn + cell" where
  \<comment> \<open>\<open>preprocess_text(v)\<close> on a column value: \<open>v.lower()\<close> exists on a \<open>str\<close> only\<close>
  "call_preprocess_text u stop_words (Str text) = Inr (Str (preprocess_text u stop_words text))"
| "call_preprocess_text u stop_words (Num n) = Inl AttributeError"
| "call_preprocess_text u stop_words NaN = Inl AttributeError"

fun apply_series :: "('a \<Rightarrow> exn + 'b) \<Rightarrow> 'a list \<Rightarrow> exn + 'b list" where
  \<comment> \<open>\<open>Series.apply(f)\<close>: \<open>f\<close> on each value in order; the first exception ends it\<close>
  "apply_series f [] = Inr []"
| "apply_series f (v # vs) =
     (case f v of
        Inl e \<Rightarrow> Inl e
      | Inr r \<Rightarrow> (case apply_series f vs of Inl e \<Rightarrow> Inl e | Inr rs \<Rightarrow> Inr (r # rs)))"

section \<open>What the notebook calls\<close>

text \<open>
  Python's Unicode tables, pandas and scikit-learn are not part of the repository: the
  notebook is modelled over an arbitrary library, a record of what it uses of them.
  \<open>'w\<close> is the environment a call may consult (the file system, the process-wide random
  generator), \<open>'f\<close> the type of floating-point numbers and \<open>'m\<close> the type of fitted
  models. Each function returns its value, or the exception it raises.

  Two calls take the environment: \<open>read_csv\<close> reads a file, and \<open>train_test_split\<close>
  shuffles, with the process-wide generator when it is given no seed. The estimators,
  \<open>predict\<close> and the two metrics are functions of their arguments: \<open>MultinomialNB\<close>
  draws no random number, and \<open>SVC\<close> does so for probability estimates only, which its
  default leaves off. What a call writes by itself (a warning) is not modelled.
\<close>

type_synonym 'f matrix = "'f list list"

record ('w, 'f, 'm) library =
  unicode_tables :: unicode
  ENGLISH_STOP_WORDS :: "str set"
  read_csv :: "'w \<Rightarrow> str \<Rightarrow> exn + dataframe"
  fit_transform :: "nat \<Rightarrow> series \<Rightarrow> exn + 'f matrix"
    \<comment> \<open>\<open>TfidfVectorizer(max_features=k).fit_transform(docs).toarray()\<close>, one list per row\<close>
  train_test_split ::
    "'w \<Rightarrow> 'f matrix \<Rightarrow> series \<Rightarrow> rat \<Rightarrow> nat option
       \<Rightarrow> exn + ('f matrix \<times> 'f matrix \<times> series \<times> series)"
    \<comment> \<open>\<open>train_test_split(X, y, test_size=t, random_state=r)\<close>\<close>
  MultinomialNB_fit :: "'f matrix \<Rightarrow> series \<Rightarrow> exn + 'm"
    \<comment> \<open>\<open>m = MultinomialNB(); m.fit(X, y)\<close>, giving the fitted \<open>m\<close>\<close>
  SVC_fit :: "str \<Rightarrow> 'f matrix \<Rightarrow> series \<Rightarrow> exn + 'm"
    \<comment> \<open>\<open>m = SVC(kernel=k); m.fit(X, y)\<close>, giving the fitted \<open>m\<close>\<close>
  predict :: "'m \<Rightarrow> 'f matrix \<Rightarrow> exn + series"
  accuracy_score :: "series \<Rightarrow> series \<Rightarrow> exn + 'f"
  f1_score :: "series \<Rightarrow> series \<Rightarrow> str \<Rightarrow> exn + 'f"
    \<comment> \<open>\<open>f1_score(y_true, y_pred, average=a)\<close>\<close>

section \<open>The notebook: statements over the kernel's variables\<close>

datatype 'f arg = Text str | Number 'f
  \<comment> \<open>one argument of a \<open>print\<close> call\<close>

type_synonym 'f line = "'f arg list"
  \<comment> \<open>a printed line: the arguments of one \<open>print\<close> call, which it writes separated by
      single spaces\<close>

text \<open>
  The statements of the notebook that call a library or print, by name. The three
  constructor calls (\<open>TfidfVectorizer\<close>, \<open>MultinomialNB\<close>, \<open>SVC\<close>) go with the
  statements that use the objects; the imports and the definition of \<open>preprocess_text\<close>
  are left out.
\<close>

datatype event =
    Load | Clean
  | Vectorize | Labels
  | Split | FitNB | FitSVM
  | PredictNB | AccuracyNB | F1NB | PredictSVM | AccuracySVM | F1SVM | PrintNB | PrintSVM

text \<open>
  A call of a library function, with those of its arguments that are not data: the path,
  \<open>max_features\<close>, \<open>test_size\<close> and \<open>random_state\<close>, \<open>kernel\<close>, \<open>average\<close>.
\<close>

datatype call =
    Call_read_csv str
  | Call_fit_transform nat
  | Call_train_test_split rat "nat option"
  | Call_MultinomialNB_fit
  | Call_SVC_fit str
  | Call_predict
  | Call_accuracy_score
  | Call_f1_score str

text \<open>
  The state of the kernel: the statements entered so far, the library calls that have
  returned so far, the lines printed so far, the values displayed so far (a cell whose
  last statement is an expression displays its value), and the notebook's variables, each
  unassigned (\<open>None\<close>) until its statement has run. \<open>nb_model\<close> and \<open>svm_model\<close>
  stand for the fitted models.
\<close>

record ('f, 'm) state =
  trace :: "event list"
  calls :: "call list"
  stdout :: "'f line list"
  displayed :: "'m list"
  dataset :: "dataframe option"
  X :: "'f matrix option"
  y :: "series option"
  X_train :: "'f matrix option"
  X_test :: "'f matrix option"
  y_train :: "series option"
  y_test :: "series option"
  nb_model :: "'m option"
  svm_model :: "'m option"
  nb_predictions :: "series option"
  nb_accuracy :: "'f option"
  nb_f1 :: "'f option"
  svm_predictions :: "series option"
  svm_accuracy :: "'f option"
  svm_f1 :: "'f option"

type_synonym ('f, 'm) statement = "('f, 'm) state \<Rightarrow> exn + ('f, 'm) state"

definition lookup :: "string \<Rightarrow> 'a option \<Rightarrow> ('a \<Rightarrow> exn + 'b) \<Rightarrow> exn + 'b" where
  \<comment> \<open>reading a variable: an unassigned name raises\<close>
  "lookup name var k = (case var of None \<Rightarrow> Inl (NameError name) | Some v \<Rightarrow> k v)"

definition and_then :: "exn + 'a \<Rightarrow> ('a \<Rightarrow> exn + 'b) \<Rightarrow> exn + 'b" where
  \<comment> \<open>the value of a call is used, an exception it raises is passed on\<close>
  "and_then r k = (case r of Inl e \<Rightarrow> Inl e | Inr v \<Rightarrow> k v)"

definition logged :: "call \<Rightarrow> exn + 'a \<Rightarrow> ('f, 'm) state \<Rightarrow> exn + 'a \<times> ('f, 'm) state" where
  \<comment> \<open>a library call that returns is entered in the log of calls; one that raises
      passes its exception on\<close>
  "logged c r s = and_then r (\<lambda>v. Inr (v, s\<lparr>calls := calls s @ [c]\<rparr>))"

text \<open>
  The library as the notebook calls it: every call goes through one of these, which
  makes the call and enters it in the log.
\<close>

definition pd_read_csv ::
  "('w, 'f, 'm) library \<Rightarrow> 'w \<Rightarrow> str \<Rightarrow> ('f, 'm) state \<Rightarrow> exn + dataframe \<times> ('f, 'm) state"
  where "pd_read_csv lib w path = logged (Call_read_csv path) (read_csv lib w path)"

definition tfidf_fit_transform ::
  "('w, 'f, 'm) library \<Rightarrow> nat \<Rightarrow> series \<Rightarrow> ('f, 'm) state
     \<Rightarrow> exn + 'f matrix \<times> ('f, 'm) state"
  where "tfidf_fit_transform lib k docs = logged (Call_fit_transform k) (fit_transform lib k docs)"

definition sk_train_test_split ::
  "('w, 'f, 'm) library \<Rightarrow> 'w \<Rightarrow> 'f matrix \<Rightarrow> series \<Rightarrow> rat \<Rightarrow> nat option \<Rightarrow> ('f, 'm) state
     \<Rightarrow> exn + ('f matrix \<times> 'f matrix \<times> series \<times> series) \<times> ('f, 'm) state"
  where "sk_train_test_split lib w M l t r =
           logged (Call_train_test_split t r) (train_test_split lib w M l t r)"

definition nb_fit ::
  "('w, 'f, 'm) library \<Rightarrow> 'f matrix \<Rightarrow> series \<Rightarrow> ('f, 'm) state \<Rightarrow> exn + 'm \<times> ('f, 'm) state"
  where "nb_fit lib M l = logged Call_MultinomialNB_fit (MultinomialNB_fit lib M l)"

definition svc_fit ::
  "('w, 'f, 'm) library \<Rightarrow> str \<Rightarrow> 'f matrix \<Rightarrow> series \<Rightarrow> ('f, 'm) state
     \<Rightarrow> exn + 'm \<times> ('f, 'm) state"
  where "svc_fit lib kern M l = logged (Call_SVC_fit kern) (SVC_fit lib kern M l)"

definition model_predict ::
  "('w, 'f, 'm) library \<Rightarrow> 'm \<Rightarrow> 'f matrix \<Rightarrow> ('f, 'm) state \<Rightarrow> exn + series \<times> ('f, 'm) state"
  where "model_predict lib m M = logged Call_predict (predict lib m M)"

definition sk_accuracy_score ::
  "('w, 'f, 'm) library \<Rightarrow> series \<Rightarrow> series \<Rightarrow> ('f, 'm) state \<Rightarrow> exn + 'f \<times> ('f, 'm) state"
  where "sk_accuracy_score lib l p = logged Call_accuracy_score (accuracy_score lib l p)"

definition sk_f1_score ::
  "('w, 'f, 'm) library \<Rightarrow> series \<Rightarrow> series \<Rightarrow> str \<Rightarrow> ('f, 'm) state
     \<Rightarrow> exn + 'f \<times> ('f, 'm) state"
  where "sk_f1_score lib l p average = logged (Call_f1_score average) (f1_score lib l p average)"

definition load_dataset :: "('w, 'f, 'm) library \<Rightarrow> 'w \<Rightarrow> ('f, 'm) statement" where
  \<comment> \<open>\<open>dataset = pd.read_csv('nlp_dataset.csv')\<close>\<close>
  "load_dataset lib w s =
     and_then (pd_read_csv lib w (ascii ''nlp_dataset.csv'') s) (\<lambda>(df, s).
     Inr (s\<lparr>dataset := Some df\<rparr>))"

definition apply_preprocessing :: "('w, 'f, 'm) library \<Rightarrow> ('f, 'm) statement" where
  \<comment> \<open>\<open>dataset['Processed_Comment'] = dataset['Comment'].apply(preprocess_text)\<close>\<close>
  "apply_preprocessing lib s =
     lookup ''dataset'' (dataset s) (\<lambda>df.
     and_then (getitem df (ascii ''Comment'')) (\<lambda>comments.
     and_then
       (apply_series (call_preprocess_text (unicode_tables lib) (ENGLISH_STOP_WORDS lib))
          comments) (\<lambda>processed.
     Inr (s\<lparr>dataset := Some (setitem df (ascii ''Processed_Comment'') processed)\<rparr>))))"

definition transform_text :: "('w, 'f, 'm) library \<Rightarrow> ('f, 'm) statement" where
  \<comment> \<open>\<open>tfidf_vectorizer = TfidfVectorizer(max_features=500)\<close> and
      \<open>X = tfidf_vectorizer.fit_transform(dataset['Processed_Comment']).toarray()\<close>\<close>
  "transform_text lib s =
     lookup ''dataset'' (dataset s) (\<lambda>df.
     and_then (getitem df (ascii ''Processed_Comment'')) (\<lambda>docs.
     and_then (tfidf_fit_transform lib 500 docs s) (\<lambda>(M, s).
     Inr (s\<lparr>X := Some M\<rparr>))))"

definition extract_labels :: "('f, 'm) statement" where
  \<comment> \<open>\<open>y = dataset['Emotion']\<close>\<close>
  "extract_labels s =
     lookup ''dataset'' (dataset s) (\<lambda>df.
     and_then (getitem df (ascii ''Emotion'')) (\<lambda>l.
     Inr (s\<lparr>y := Some l\<rparr>)))"

definition split_data :: "('w, 'f, 'm) library \<Rightarrow> 'w \<Rightarrow> ('f, 'm) statement" where
  \<comment> \<open>\<open>X_train, X_test, y_train, y_test =
        train_test_split(X, y, test_size=0.2, random_state=42)\<close>\<close>
  "split_data lib w s =
     lookup ''X'' (X s) (\<lambda>M.
     lookup ''y'' (y s) (\<lambda>l.
     and_then (sk_train_test_split lib w M l (2 / 10) (Some 42) s) (\<lambda>((M1, M2, l1, l2), s).
     Inr (s\<lparr>X_train := Some M1, X_test := Some M2, y_train := Some l1, y_test := Some l2\<rparr>))))"

definition fit_nb :: "('w, 'f, 'm) library \<Rightarrow> ('f, 'm) statement" where
  \<comment> \<open>\<open>nb_model = MultinomialNB()\<close> and \<open>nb_model.fit(X_train, y_train)\<close>\<close>
  "fit_nb lib s =
     lookup ''X_train'' (X_train s) (\<lambda>M.
     lookup ''y_train'' (y_train s) (\<lambda>l.
     and_then (nb_fit lib M l s) (\<lambda>(m, s).
     Inr (s\<lparr>nb_model := Some m\<rparr>))))"

definition fit_svm :: "('w, 'f, 'm) library \<Rightarrow> ('f, 'm) statement" where
  \<comment> \<open>\<open>svm_model = SVC(kernel='linear')\<close> and \<open>svm_model.fit(X_train, y_train)\<close>, the
      last statement of its cell: an expression, whose value (\<open>fit\<close> returns the
      estimator) is displayed\<close>
  "fit_svm lib s =
     lookup ''X_train'' (X_train s) (\<lambda>M.
     lookup ''y_train'' (y_train s) (\<lambda>l.
     and_then (svc_fit lib (ascii ''linear'') M l s) (\<lambda>(m, s).
     Inr (s\<lparr>svm_model := Some m, displayed := displayed s @ [m]\<rparr>))))"

definition predict_nb :: "('w, 'f, 'm) library \<Rightarrow> ('f, 'm) statement" where
  \<comment> \<open>\<open>nb_predictions = nb_model.predict(X_test)\<close>\<close>
  "predict_nb lib s =
     lookup ''nb_model'' (nb_model s) (\<lambda>m.
     lookup ''X_test'' (X_test s) (\<lambda>M.
     and_then (model_predict lib m M s) (\<lambda>(p, s).
     Inr (s\<lparr>nb_predictions := Some p\<rparr>))))"

definition score_nb_accuracy :: "('w, 'f, 'm) library \<Rightarrow> ('f, 'm) statement" where
  \<comment> \<open>\<open>nb_accuracy = accuracy_score(y_test, nb_predictions)\<close>\<close>
  "score_nb_accuracy lib s =
     lookup ''y_test'' (y_test s) (\<lambda>l.
     lookup ''nb_predictions'' (nb_predictions s) (\<lambda>p.
     and_then (sk_accuracy_score lib l p s) (\<lambda>(v, s).
     Inr (s\<lparr>nb_accuracy := Some v\<rparr>))))"

definition score_nb_f1 :: "('w, 'f, 'm) library \<Rightarrow> ('f, 'm) statement" where
  \<comment> \<open>\<open>nb_f1 = f1_score(y_test, nb_predictions, average='weighted')\<close>\<close>
  "score_nb_f1 lib s =
     lookup ''y_test'' (y_test s) (\<lambda>l.
     lookup ''nb_predictions'' (nb_predictions s) (\<lambda>p.
     and_then (sk_f1_score lib l p (ascii ''weighted'') s) (\<lambda>(v, s).
     Inr (s\<lparr>nb_f1 := Some v\<rparr>))))"

definition predict_svm :: "('w, 'f, 'm) library \<Rightarrow> ('f, 'm) statement" where
  \<comment> \<open>\<open>svm_predictions = svm_model.predict(X_test)\<close>\<close>
  "predict_svm lib s =
     lookup ''svm_model'' (svm_model s) (\<lambda>m.
     lookup ''X_test'' (X_test s) (\<lambda>M.
     and_then (model_predict lib m M s) (\<lambda>(p, s).
     Inr (s\<lparr>svm_predictions := Some p\<rparr>))))"

definition score_svm_accuracy :: "('w, 'f, 'm) library \<Rightarrow> ('f, 'm) statement" where
  \<comment> \<open>\<open>svm_accuracy = accuracy_score(y_test, svm_predictions)\<close>\<close>
  "score_svm_accuracy lib s =
     lookup ''y_test'' (y_test s) (\<lambda>l.
     lookup ''svm_predictions'' (svm_predictions s) (\<lambda>p.
     and_then (sk_accuracy_score lib l p s) (\<lambda>(v, s).
     Inr (s\<lparr>svm_accuracy := Some v\<rparr>))))"

definition score_svm_f1 :: "('w, 'f, 'm) library \<Rightarrow> ('f, 'm) statement" where
  \<comment> \<open>\<open>svm_f1 = f1_score(y_test, svm_predictions, average='weighted')\<close>\<close>
  "score_svm_f1 lib s =
     lookup ''y_test'' (y_test s) (\<lambda>l.
     lookup ''svm_predictions'' (svm_predictions s) (\<lambda>p.
     and_then (sk_f1_score lib l p (ascii ''weighted'') s) (\<lambda>(v, s).
     Inr (s\<lparr>svm_f1 := Some v\<rparr>))))"

definition print_nb :: "('f, 'm) statement" where
  \<comment> \<open>\<open>print("Naive Bayes - Accuracy:", nb_accuracy, "F1-Score:", nb_f1)\<close>\<close>
  "print_nb s =
     lookup ''nb_accuracy'' (nb_accuracy s) (\<lambda>a.
     lookup ''nb_f1'' (nb_f1 s) (\<lambda>f.
     Inr (s\<lparr>stdout := stdout s
             @ [[Text (ascii ''Naive Bayes - Accuracy:''), Number a,
                 Text (ascii ''F1-Score:''), Number f]]\<rparr>)))"

definition print_svm :: "('f, 'm) statement" where
  \<comment> \<open>\<open>print("SVM - Accuracy:", svm_accuracy, "F1-Score:", svm_f1)\<close>\<close>
  "print_svm s =
     lookup ''svm_accuracy'' (svm_accuracy s) (\<lambda>a.
     lookup ''svm_f1'' (svm_f1 s) (\<lambda>f.
     Inr (s\<lparr>stdout := stdout s
             @ [[Text (ascii ''SVM - Accuracy:''), Number a,
                 Text (ascii ''F1-Score:''), Number f]]\<rparr>)))"

type_synonym ('f, 'm) program = "(event \<times> ('f, 'm) statement) list"

definition cell1 :: "('w, 'f, 'm) library \<Rightarrow> 'w \<Rightarrow> ('f, 'm) program" where
  \<comment> \<open>1. Loading and Preprocessing\<close>
  "cell1 lib w = [(Load, load_dataset lib w), (Clean, apply_preprocessing lib)]"

definition cell2 :: "('w, 'f, 'm) library \<Rightarrow> ('f, 'm) program" where
  \<comment> \<open>2. Feature Extraction\<close>
  "cell2 lib = [(Vectorize, transform_text lib), (Labels, extract_labels)]"

definition cell3 :: "('w, 'f, 'm) library \<Rightarrow> 'w \<Rightarrow> ('f, 'm) program" where
  \<comment> \<open>3. Model Development\<close>
  "cell3 lib w = [(Split, split_data lib w), (FitNB, fit_nb lib), (FitSVM, fit_svm lib)]"

definition cell4 :: "('w, 'f, 'm) library \<Rightarrow> ('f, 'm) program" where
  \<comment> \<open>4. Model Evaluation and Comparison\<close>
  "cell4 lib =
     [(PredictNB, predict_nb lib), (AccuracyNB, score_nb_accuracy lib), (F1NB, score_nb_f1 lib),
      (PredictSVM, predict_svm lib), (AccuracySVM, score_svm_accuracy lib),
      (F1SVM, score_svm_f1 lib),
      (PrintNB, print_nb), (PrintSVM, print_svm)]"

definition notebook :: "('w, 'f, 'm) library \<Rightarrow> 'w \<Rightarrow> ('f, 'm) program" where
  \<comment> \<open>the code cells, top to bottom, as "Run All" runs them\<close>
  "notebook lib w = cell1 lib w @ cell2 lib @ cell3 lib w @ cell4 lib"

fun exec :: "('f, 'm) program \<Rightarrow> ('f, 'm) state \<Rightarrow> exn option \<times> ('f, 'm) state" where
  \<comment> \<open>the statements one after the other; nothing catches an exception, so the first one
      raised ends the run, and the statement that raised it assigns nothing\<close>
  "exec [] s = (None, s)"
| "exec ((ev, statement) # rest) s =
     (case statement (s\<lparr>trace := trace s @ [ev]\<rparr>) of
        Inl e \<Rightarrow> (Some e, s\<lparr>trace := trace s @ [ev]\<rparr>)
      | Inr s' \<Rightarrow> exec rest s')"

definition fresh :: "('f, 'm) state" where
  \<comment> \<open>a kernel just started\<close>
  "fresh =
     \<lparr>trace = [], calls = [], stdout = [], displayed = [], dataset = None, X = None, y = None,
      X_train = None, X_test = None, y_train = None, y_test = None,
      nb_model = None, svm_model = None,
      nb_predictions = None, nb_accuracy = None, nb_f1 = None,
      svm_predictions = None, svm_accuracy = None, svm_f1 = None\<rparr>"

definition run :: "('w, 'f, 'm) library \<Rightarrow> 'w \<Rightarrow> exn option \<times> ('f, 'm) state" where
  \<comment> \<open>a run of the notebook: its outcome (the uncaught exception, if any) and the final
      state of the kernel\<close>
  "run lib w = exec (notebook lib w) fresh"

definition completed :: "exn option \<times> ('f, 'm) state \<Rightarrow> bool" where
  "completed r = (fst r = None)"

datatype stage = Preprocessing | FeatureExtraction | ModelDevelopment | Evaluation

fun stage_of :: "event \<Rightarrow> stage" where
  \<comment> \<open>the code cell a statement stands in\<close>
  "stage_of Load = Preprocessing"
| "stage_of Clean = Preprocessing"
| "stage_of Vectorize = FeatureExtraction"
| "stage_of Labels = FeatureExtraction"
| "stage_of Split = ModelDevelopment"
| "stage_of FitNB = ModelDevelopment"
| "stage_of FitSVM = ModelDevelopment"
| "stage_of ev = Evaluation"

definition statements :: "event list" where
  \<comment> \<open>the statements of the four code cells by name, top to bottom\<close>
  "statements =
     [Load, Clean,
      Vectorize, Labels,
      Split, FitNB, FitSVM,
      PredictNB, AccuracyNB, F1NB, PredictSVM, AccuracySVM, F1SVM, PrintNB, PrintSVM]"

definition library_calls :: "call list" where
  \<comment> \<open>the library calls of the four code cells, top to bottom\<close>
  "library_calls =
     [Call_read_csv (ascii ''nlp_dataset.csv''),
      Call_fit_transform 500,
      Call_train_test_split (2 / 10) (Some 42), Call_MultinomialNB_fit,
      Call_SVC_fit (ascii ''linear''),
      Call_predict, Call_accuracy_score, Call_f1_score (ascii ''weighted''),
      Call_predict, Call_accuracy_score, Call_f1_score (ascii ''weighted'')]"

fun is_number :: "'f arg \<Rightarrow> bool" where
  "is_number (Number v) = True"
| "is_number (Text t) = False"

definition numbers_printed :: "'f line list \<Rightarrow> nat" where
  "numbers_printed out = length (filter is_number (concat out))"

fun is_str :: "cell \<Rightarrow> bool" where
  "is_str (Str text) = True"
| "is_str v = False"

section \<open>What the notebook relies on in the libraries\<close>

definition shaped_fit_transform :: "('w, 'f, 'm) library \<Rightarrow> bool" where
  \<comment> \<open>scikit-learn documents the result of \<open>fit_transform\<close> as of shape
      (n_samples, n_features), over a vocabulary of at most \<open>max_features\<close> terms\<close>
  "shaped_fit_transform lib =
     (\<forall>k docs M. fit_transform lib k docs = Inr M
        \<longrightarrow> length M = length docs \<and> (\<forall>row \<in> set M. length row \<le> k))"

definition shaped_predict :: "('w, 'f, 'm) library \<Rightarrow> bool" where
  \<comment> \<open>scikit-learn documents the result of \<open>predict\<close> as of shape (n_samples,)\<close>
  "shaped_predict lib =
     (\<forall>m M p. predict lib m M = Inr p \<longrightarrow> length p = length M)"

definition seeded_split :: "('w, 'f, 'm) library \<Rightarrow> bool" where
  \<comment> \<open>with an integer \<open>random_state\<close>, \<open>train_test_split\<close> shuffles from that seed
      alone, whatever the environment\<close>
  "seeded_split lib =
     (\<forall>w w' M l t r. train_test_split lib w M l t (Some r)
                       = train_test_split lib w' M l t (Some r))"

section \<open>A small library and some input files\<close>

text \<open>
  One library, with an extract of the Unicode tables and small deterministic stand-ins
  for the scikit-learn calls, on which the notebook can be run on concrete files. The
  theorems below hold for every library; this one is where they are instantiated.
\<close>

definition letterlike :: unicode where
  \<comment> \<open>An extract of the Unicode tables, exact at U+2102 (double-struck capital C): an
      uppercase letter with no lowercase mapping, which \<open>lower\<close> therefore leaves as it
      is. The examples hold no other code point from 256 on; the extract takes any other
      for a caseless character that is not whitespace.\<close>
  "letterlike =
     \<lparr>isupper_from_256 = (\<lambda>c. c = 0x2102),
      lower_from_256 = (\<lambda>before c after. [c]),
      isspace_from_256 = (\<lambda>c. False)\<rparr>"

definition lit :: "string \<Rightarrow> cell" where
  \<comment> \<open>the column value of an ASCII literal\<close>
  "lit s = Str (ascii s)"

record toy_world =
  files :: "(str \<times> dataframe) list"
  rng :: nat

definition toy_read_csv :: "toy_world \<Rightarrow> str \<Rightarrow> exn + dataframe" where
  "toy_read_csv w path =
     (case map_of (files w) path of None \<Rightarrow> Inl FileNotFoundError | Some df \<Rightarrow> Inr df)"

fun n_tokens :: "cell \<Rightarrow> nat" where
  "n_tokens (Str text) = length (split letterlike text)"
| "n_tokens v = 0"

definition toy_fit_transform :: "nat \<Rightarrow> series \<Rightarrow> exn + rat matrix" where
  \<comment> \<open>a single feature, the number of tokens; no token at all is an empty vocabulary\<close>
  "toy_fit_transform k docs =
     (if list_all (\<lambda>d. n_tokens d = 0) docs then Inl ValueError
      else Inr (map (\<lambda>d. take k [of_nat (n_tokens d)]) docs))"

definition toy_train_test_split ::
  "toy_world \<Rightarrow> rat matrix \<Rightarrow> series \<Rightarrow> rat \<Rightarrow> nat option
     \<Rightarrow> exn + (rat matrix \<times> rat matrix \<times> series \<times> series)" where
  \<comment> \<open>rotates the rows by the seed (the generator's state when there is no seed); the
      first rows are the test set. An empty training set is an error.\<close>
  "toy_train_test_split w M l t r =
     (let n = length M;
          n_test = nat \<lceil>of_nat n * t\<rceil>;
          k = (case r of None \<Rightarrow> rng w | Some seed \<Rightarrow> seed)
      in if n \<le> n_test then Inl ValueError
         else Inr (drop n_test (rotate k M), take n_test (rotate k M),
                   drop n_test (rotate k l), take n_test (rotate k l)))"

definition toy_MultinomialNB_fit :: "rat matrix \<Rightarrow> series \<Rightarrow> exn + cell" where
  \<comment> \<open>a model that answers the last training label\<close>
  "toy_MultinomialNB_fit M l = (if l = [] then Inl ValueError else Inr (last l))"

definition toy_SVC_fit :: "str \<Rightarrow> rat matrix \<Rightarrow> series \<Rightarrow> exn + cell" where
  \<comment> \<open>a model that answers the first training label; one class only is an error, as
      it is for \<open>SVC\<close>\<close>
  "toy_SVC_fit kern M l = (if length (remdups l) < 2 then Inl ValueError else Inr (hd l))"

definition toy_predict :: "cell \<Rightarrow> rat matrix \<Rightarrow> exn + series" where
  "toy_predict m M = Inr (map (\<lambda>row. m) M)"

definition toy_accuracy_score :: "series \<Rightarrow> series \<Rightarrow> exn + rat" where
  "toy_accuracy_score l p =
     (if length l \<noteq> length p \<or> l = [] then Inl ValueError
      else Inr (of_nat (length (filter (\<lambda>(a, b). a = b) (zip l p))) / of_nat (length l)))"

definition class_f1 :: "series \<Rightarrow> series \<Rightarrow> cell \<Rightarrow> rat" where
  \<comment> \<open>the F1 score of one class: 2 tp / (2 tp + fp + fn), and 0 when that is 0 / 0\<close>
  "class_f1 l p c =
     (let tp = length (filter (\<lambda>(a, b). a = c \<and> b = c) (zip l p));
          fp = length (filter (\<lambda>(a, b). a \<noteq> c \<and> b = c) (zip l p));
          fn = length (filter (\<lambda>(a, b). a = c \<and> b \<noteq> c) (zip l p))
      in if 2 * tp + fp + fn = 0 then 0 else of_nat (2 * tp) / of_nat (2 * tp + fp + fn))"

definition toy_f1_score :: "series \<Rightarrow> series \<Rightarrow> str \<Rightarrow> exn + rat" where
  \<comment> \<open>the weighted average: each class's F1 weighted by its share of the true labels\<close>
  "toy_f1_score l p average =
     (if length l \<noteq> length p \<or> l = [] \<or> average \<noteq> (ascii ''weighted'') then Inl ValueError
      else Inr (sum_list (map (\<lambda>c. of_nat (count_list l c) * class_f1 l p c) (remdups l))
                / of_nat (length l)))"

definition toy_library :: "(toy_world, rat, cell) library" where
  "toy_library =
     \<lparr>unicode_tables = letterlike,
      ENGLISH_STOP_WORDS =
        set (map ascii
               [''i'', ''am'', ''so'', ''this'', ''is'', ''a'', ''and'', ''what'', ''the'']),
      read_csv = toy_read_csv,
      fit_transform = toy_fit_transform,
      train_test_split = toy_train_test_split,
      MultinomialNB_fit = toy_MultinomialNB_fit,
      SVC_fit = toy_SVC_fit,
      predict = toy_predict,
      accuracy_score = toy_accuracy_score,
      f1_score = toy_f1_score\<rparr>"

definition sample_comments :: series where
  "sample_comments =
     [lit ''I am so Happy today!'', lit ''What a joy'', lit ''This is a sad, sad day.'',
      lit ''Feeling great joy'', lit ''Tears and sorrow'', lit ''The sun is out'']"

definition sample_labels :: series where
  "sample_labels =
     [lit ''joy'', lit ''joy'', lit ''sadness'', lit ''joy'', lit ''sadness'', lit ''joy'']"

definition emotions :: dataframe where
  "emotions = [(ascii ''Comment'', sample_comments), (ascii ''Emotion'', sample_labels)]"

definition toy_run :: toy_world where
  "toy_run = \<lparr>files = [(ascii ''nlp_dataset.csv'', emotions)], rng = 7\<rparr>"

definition toy_rerun :: toy_world where
  \<comment> \<open>the same file, in a process whose random generator is in another state\<close>
  "toy_rerun = \<lparr>files = [(ascii ''nlp_dataset.csv'', emotions)], rng = 8\<rparr>"

definition no_file :: toy_world where
  "no_file = \<lparr>files = [], rng = 7\<rparr>"

definition other_names :: toy_world where
  \<comment> \<open>a file of two columns, comments and emotion labels, under other names\<close>
  "other_names =
     \<lparr>files = [(ascii ''nlp_dataset.csv'',
                  [(ascii ''text'', sample_comments), (ascii ''label'', sample_labels)])],
      rng = 7\<rparr>"

definition missing_comment :: toy_world where
  \<comment> \<open>a file with an empty comment field in its second row, read as the missing value\<close>
  "missing_comment =
     \<lparr>files = [(ascii ''nlp_dataset.csv'',
                  [(ascii ''Comment'', [lit ''What a joy'', NaN, lit ''Tears and sorrow'']),
                   (ascii ''Emotion'', [lit ''joy'', lit ''joy'', lit ''sadness''])])],
      rng = 7\<rparr>"

definition only_stop_words :: toy_world where
  \<comment> \<open>a file whose comments hold stop words only: nothing is left of them to count\<close>
  "only_stop_words =
     \<lparr>files = [(ascii ''nlp_dataset.csv'',
                  [(ascii ''Comment'', [lit ''I am so'', lit ''This is a'']),
                   (ascii ''Emotion'', [lit ''joy'', lit ''sadness''])])],
      rng = 7\<rparr>"

definition one_emotion :: toy_world where
  \<comment> \<open>the sample comments, all under one label\<close>
  "one_emotion =
     \<lparr>files = [(ascii ''nlp_dataset.csv'',
                  [(ascii ''Comment'', sample_comments),
                   (ascii ''Emotion'',
                      [lit ''joy'', lit ''joy'', lit ''joy'', lit ''joy'', lit ''joy'',
                       lit ''joy''])])],
      rng = 7\<rparr>"

definition toy_final :: "(rat, cell) state" where
  \<comment> \<open>the kernel after the run of the notebook on \<open>toy_run\<close>\<close>
  "toy_final =
     \<lparr>trace = statements,
      calls = library_calls,
      stdout =
        [[Text (ascii ''Naive Bayes - Accuracy:''), Number 1,
          Text (ascii ''F1-Score:''), Number 1],
         [Text (ascii ''SVM - Accuracy:''), Number 0,
          Text (ascii ''F1-Score:''), Number 0]],
      displayed = [lit ''sadness''],
      dataset =
        Some (emotions @
              [(ascii ''Processed_Comment'',
                  [lit ''happy today'', lit ''joy'', lit ''sad sad day'',
                   lit ''feeling great joy'', lit ''tears sorrow'', lit ''sun out''])]),
      X = Some [[2], [1], [3], [3], [2], [2]],
      y = Some sample_labels,
      X_train = Some [[3], [3], [2], [2]],
      X_test = Some [[2], [1]],
      y_train = Some [lit ''sadness'', lit ''joy'', lit ''sadness'', lit ''joy''],
      y_test = Some [lit ''joy'', lit ''joy''],
      nb_model = Some (lit ''joy''),
      svm_model = Some (lit ''sadness''),
      nb_predictions = Some [lit ''joy'', lit ''joy''],
      nb_accuracy = Some 1,
      nb_f1 = Some 1,
      svm_predictions = Some [lit ''sadness'', lit ''sadness''],
      svm_accuracy = Some 0,
      svm_f1 = Some 0\<rparr>"

section \<open>Properties of the text preprocessing\<close>

lemma space_plain: "\<not> isupper u 32" "32 \<notin> set punctuation" "isspace u 32"
  by (simp_all add: isupper_def punctuation_def isspace_def ascii_def)

lemma not_isupper_lower_char:
  "c < 256 \<Longrightarrow> d \<in> set (lower_char u before c after) \<Longrightarrow> \<not> isupper u d"
  by (auto simp: lower_char_def isupper_def split: if_splits)

lemma isupper_lower_from:
  "d \<in> set (lower_from u before s) \<Longrightarrow> isupper u d
     \<Longrightarrow> \<exists>pre c post. s = pre @ c # post \<and> 256 \<le> c
           \<and> d \<in> set (lower_from_256 u (before @ pre) c post)"
proof (induction s arbitrary: before)
  case Nil
  then show ?case by simp
next
  case (Cons c cs)
  from Cons.prems(1)
  consider "d \<in> set (lower_char u before c cs)" | "d \<in> set (lower_from u (before @ [c]) cs)"
    by auto
  then show ?case
  proof cases
    case 1
    with Cons.prems(2) have "256 \<le> c"
      using not_isupper_lower_char[of c d u before cs] by (cases "c < 256") auto
    with 1 have "d \<in> set (lower_from_256 u (before @ []) c cs)"
      by (simp add: lower_char_def)
    with \<open>256 \<le> c\<close> show ?thesis by (metis append_Nil)
  next
    case 2
    from Cons.IH[OF 2 Cons.prems(2)]
    obtain pre c' post
      where "cs = pre @ c' # post" "256 \<le> c'"
        "d \<in> set (lower_from_256 u ((before @ [c]) @ pre) c' post)"
      by blast
    then have "c # cs = (c # pre) @ c' # post \<and> 256 \<le> c'
                 \<and> d \<in> set (lower_from_256 u (before @ (c # pre)) c' post)"
      by simp
    then show ?thesis by blast
  qed
qed

lemma lower_char_in_lower_from:
  "set (lower_char u (before @ pre) c post) \<subseteq> set (lower_from u before (pre @ c # post))"
proof (induction pre arbitrary: before)
  case Nil
  then show ?case by simp
next
  case (Cons a pre)
  from Cons[of "before @ [a]"] show ?case by auto
qed

lemma punctuation_ascii: "c \<in> set punctuation \<Longrightarrow> c < 128"
  by (auto simp: punctuation_def ascii_def)

lemma split_tokens:
  "t \<in> set (split u s) \<Longrightarrow> t \<noteq> [] \<and> (\<forall>c \<in> set t. \<not> isspace u c) \<and> set t \<subseteq> set s"
proof (induction u s arbitrary: t rule: split.induct)
  case (1 u)
  then show ?case by simp
next
  case (2 u c cs)
  let ?P = "\<lambda>d. \<not> isspace u d"
  show ?case
  proof (cases "isspace u c")
    case True
    then have "t \<in> set (split u cs)" using "2.prems" by simp
    then have "t \<noteq> [] \<and> (\<forall>c \<in> set t. \<not> isspace u c) \<and> set t \<subseteq> set cs"
      using "2.IH"(1)[OF True] by blast
    then show ?thesis by (simp add: subset_insertI2)
  next
    case False
    then have "t = c # takeWhile ?P cs \<or> t \<in> set (split u (dropWhile ?P cs))"
      using "2.prems" by simp
    then show ?thesis
    proof
      assume t: "t = c # takeWhile ?P cs"
      have "\<forall>d \<in> set (takeWhile ?P cs). \<not> isspace u d" by (blast dest: set_takeWhileD)
      moreover have "set (takeWhile ?P cs) \<subseteq> set cs" by (blast dest: set_takeWhileD)
      ultimately show ?thesis using False t by (simp add: subset_insertI2)
    next
      assume "t \<in> set (split u (dropWhile ?P cs))"
      then have "t \<noteq> [] \<and> (\<forall>c \<in> set t. \<not> isspace u c) \<and> set t \<subseteq> set (dropWhile ?P cs)"
        using "2.IH"(2)[OF False] by blast
      moreover have "set (dropWhile ?P cs) \<subseteq> set cs" by (blast dest: set_dropWhileD)
      ultimately show ?thesis by (simp add: subset_insertI2) blast
    qed
  qed
qed

lemma set_join: "set (join ts) \<subseteq> (\<Union>t \<in> set ts. set t) \<union> {32}"
  by (induction ts rule: join.induct) auto

lemma split_token_then_space:
  assumes "t \<noteq> []" "\<forall>c \<in> set t. \<not> isspace u c"
  shows "split u (t @ 32 # r) = t # split u r"
proof -
  obtain c cs where t: "t = c # cs" using assms(1) by (cases t) auto
  have sp: "isspace u 32" by (simp add: isspace_def)
  from assms(2) t have c: "\<not> isspace u c" and cs: "\<forall>d \<in> set cs. \<not> isspace u d" by auto
  have tw: "takeWhile (\<lambda>d. \<not> isspace u d) (cs @ 32 # r) = cs"
    using cs sp by (simp add: takeWhile_tail)
  have dw: "dropWhile (\<lambda>d. \<not> isspace u d) (cs @ 32 # r) = 32 # r"
    using cs sp by simp
  show ?thesis using c sp by (simp add: t tw dw)
qed

lemma split_single:
  assumes "t \<noteq> []" "\<forall>c \<in> set t. \<not> isspace u c"
  shows "split u t = [t]"
proof -
  obtain c cs where t: "t = c # cs" using assms(1) by (cases t) auto
  from assms(2) t have c: "\<not> isspace u c" and cs: "\<forall>d \<in> set cs. \<not> isspace u d" by auto
  have tw: "takeWhile (\<lambda>d. \<not> isspace u d) cs = cs" using cs by simp
  have dw: "dropWhile (\<lambda>d. \<not> isspace u d) cs = []" using cs by simp
  show ?thesis using c by (simp add: t tw dw)
qed

lemma split_join:
  "\<forall>t \<in> set ts. t \<noteq> [] \<and> (\<forall>c \<in> set t. \<not> isspace u c) \<Longrightarrow> split u (join ts) = ts"
proof (induction ts rule: join.induct)
  case 1
  then show ?case by simp
next
  case (2 t)
  then show ?case by (simp add: split_single)
next
  case (3 t v vs)
  then show ?case by (simp add: split_token_then_space del: split.simps)
qed

lemma split_covers:
  "c \<in> set s \<Longrightarrow> \<not> isspace u c \<Longrightarrow> \<exists>t \<in> set (split u s). c \<in> set t"
proof (induction u s rule: split.induct)
  case (1 u)
  then show ?case by simp
next
  case (2 u a as)
  let ?P = "\<lambda>d. \<not> isspace u d"
  show ?case
  proof (cases "isspace u a")
    case True
    with "2.prems" have "c \<in> set as" by auto
    with "2.IH"(1)[OF True] "2.prems"(2) True show ?thesis by simp
  next
    case False
    have "as = takeWhile ?P as @ dropWhile ?P as" by simp
    then have "set as = set (takeWhile ?P as) \<union> set (dropWhile ?P as)"
      by (metis set_append)
    with "2.prems"(1)
    consider "c = a" | "c \<in> set (takeWhile ?P as)" | "c \<in> set (dropWhile ?P as)"
      by auto
    then show ?thesis
    proof cases
      case 1
      with False show ?thesis by simp
    next
      case 2
      with False show ?thesis by simp
    next
      case 3
      from "2.IH"(2)[OF False 3 "2.prems"(2)] False show ?thesis by simp
    qed
  qed
qed

lemma token_in_join: "t \<in> set ts \<Longrightarrow> set t \<subseteq> set (join ts)"
  by (induction ts rule: join.induct) auto

text \<open>
  C8, as amended: for every input string (and whatever the stop-word list and the Unicode
  tables), the result of \<open>preprocess_text\<close> holds no ASCII punctuation character;
  split on whitespace again, it gives exactly the tokens of the lowercased,
  punctuation-free text that are not stop words, in their order, so none of its tokens is
  a stop word; and it is those tokens joined by single spaces. It holds no uppercase
  letter other than a character that \<open>lower\<close> itself puts out for a character of the
  input from code point 256 on, and so none at all when every code point of the input is
  below 256 (ASCII and Latin-1). A character from 256 on that is not whitespace and that
  \<open>lower\<close> leaves as it is, as it does an uppercase letter that has no lowercase
  mapping, is in the result, unless the token it stands in is a stop word. As a function
  of its argument, the stop-word list and the tables it gives one result per input.
\<close>

theorem preprocess_text_clean:
  "(\<forall>c \<in> set (preprocess_text u stop_words text). c \<notin> set punctuation)
   \<and> (\<forall>t \<in> set (split u (preprocess_text u stop_words text)). t \<notin> stop_words)
   \<and> split u (preprocess_text u stop_words text)
       = filter (\<lambda>word. word \<notin> stop_words) (split u (remove_punctuation (lower u text)))
   \<and> preprocess_text u stop_words text
       = join (filter (\<lambda>word. word \<notin> stop_words)
                 (split u (remove_punctuation (lower u text))))
   \<and> (\<forall>d \<in> set (preprocess_text u stop_words text).
         isupper u d
         \<longrightarrow> (\<exists>pre c post. text = pre @ c # post \<and> 256 \<le> c
                \<and> d \<in> set (lower_from_256 u pre c post)))
   \<and> ((\<forall>c \<in> set text. c < 256)
        \<longrightarrow> (\<forall>c \<in> set (preprocess_text u stop_words text). \<not> isupper u c))
   \<and> (\<forall>pre c post.
         text = pre @ c # post \<and> 256 \<le> c \<and> \<not> isspace u c
         \<and> lower_from_256 u pre c post = [c]
         \<longrightarrow> c \<in> set (preprocess_text u stop_words text)
             \<or> (\<exists>t \<in> stop_words.
                   t \<in> set (split u (remove_punctuation (lower u text))) \<and> c \<in> set t))"
proof -
  let ?cleaned = "remove_punctuation (lower u text)"
  let ?tokens = "filter (\<lambda>word. word \<notin> stop_words) (split u ?cleaned)"
  have res: "preprocess_text u stop_words text = join ?tokens"
    by (simp add: preprocess_text_def Let_def)
  have toks: "\<forall>t \<in> set ?tokens. t \<noteq> [] \<and> (\<forall>c \<in> set t. \<not> isspace u c)"
    using split_tokens by auto
  have again: "split u (join ?tokens) = ?tokens"
    using toks by (rule split_join)
  have from_cleaned: "c = 32 \<or> c \<in> set ?cleaned" if "c \<in> set (join ?tokens)" for c
  proof -
    from that consider "c = 32" | t where "t \<in> set ?tokens" "c \<in> set t"
      using set_join[of ?tokens] by auto
    then show ?thesis
    proof cases
      case 1
      then show ?thesis by simp
    next
      case 2
      then show ?thesis using split_tokens[of t u ?cleaned] by auto
    qed
  qed
  have punct: "\<forall>c \<in> set (join ?tokens). c \<notin> set punctuation"
    using from_cleaned space_plain(2) by (auto simp: remove_punctuation_def)
  have from_lower: "\<exists>pre c post. text = pre @ c # post \<and> 256 \<le> c
                      \<and> d \<in> set (lower_from_256 u pre c post)"
    if "d \<in> set (join ?tokens)" "isupper u d" for d
  proof -
    from that from_cleaned[of d] space_plain(1)[of u] have "d \<in> set (lower_from u [] text)"
      by (auto simp: remove_punctuation_def lower_def)
    from isupper_lower_from[OF this that(2)] show ?thesis by simp
  qed
  have upper: "\<forall>c \<in> set (join ?tokens). \<not> isupper u c" if "\<forall>c \<in> set text. c < 256"
  proof
    fix d assume "d \<in> set (join ?tokens)"
    show "\<not> isupper u d"
    proof
      assume "isupper u d"
      from from_lower[OF \<open>d \<in> set (join ?tokens)\<close> this]
      obtain pre c post where "text = pre @ c # post" "256 \<le> c" by blast
      with that show False by auto
    qed
  qed
  have stays: "c \<in> set (join ?tokens)
                 \<or> (\<exists>t \<in> stop_words. t \<in> set (split u ?cleaned) \<and> c \<in> set t)"
    if "text = pre @ c # post" "256 \<le> c" "\<not> isspace u c" "lower_from_256 u pre c post = [c]"
    for pre c post
  proof -
    have "lower_char u ([] @ pre) c post = [c]"
      using that(2,4) by (simp add: lower_char_def)
    then have "c \<in> set (lower u text)"
      using lower_char_in_lower_from[of u "[]" pre c post] that(1) by (simp add: lower_def)
    moreover have "c \<notin> set punctuation"
      using punctuation_ascii[of c] that(2) by auto
    ultimately have "c \<in> set ?cleaned"
      by (simp add: remove_punctuation_def)
    from split_covers[OF this that(3)]
    obtain t where t: "t \<in> set (split u ?cleaned)" "c \<in> set t" by blast
    show ?thesis
    proof (cases "t \<in> stop_words")
      case True
      with t show ?thesis by blast
    next
      case False
      with t have "t \<in> set ?tokens" by simp
      from token_in_join[OF this] t(2) show ?thesis by blast
    qed
  qed
  have nostop: "\<forall>t \<in> set (split u (join ?tokens)). t \<notin> stop_words"
    by (simp add: again)
  show ?thesis
    unfolding res using again nostop punct from_lower upper stays by blast
qed

theorem preprocess_text_clean_witness:
  "preprocess_text letterlike {ascii ''i'', ascii ''am'', ascii ''so''}
     (ascii ''I am so Happy, TODAY!'') = ascii ''happy today''
   \<and> list_all (\<lambda>c. \<not> isupper letterlike c \<and> c \<notin> set punctuation) (ascii ''happy today'')
   \<and> split letterlike (ascii ''happy today'') = [ascii ''happy'', ascii ''today'']
   \<and> 0x2102 \<in> set (preprocess_text letterlike {} [0x2102])"
proof -
  have ev: "preprocess_text letterlike {ascii ''i'', ascii ''am'', ascii ''so''}
              (ascii ''I am so Happy, TODAY!'') = ascii ''happy today''"
    by (simp add: preprocess_text_def lower_def lower_char_def isupper_def
          remove_punctuation_def punctuation_def isspace_def ascii_def letterlike_def)
  have sp: "split letterlike (ascii ''happy today'') = [ascii ''happy'', ascii ''today'']"
    by (simp add: isspace_def ascii_def letterlike_def)
  have lat: "\<forall>c \<in> set (ascii ''I am so Happy, TODAY!''). c < 256"
    by (simp add: ascii_def)
  have first: "list_all (\<lambda>c. \<not> isupper letterlike c \<and> c \<notin> set punctuation)
                 (ascii ''happy today'')"
    using preprocess_text_clean[of letterlike "{ascii ''i'', ascii ''am'', ascii ''so''}"
            "ascii ''I am so Happy, TODAY!''"] lat
    unfolding ev list_all_iff by blast
  have "[0x2102] = [] @ 0x2102 # [] \<and> (256 :: nat) \<le> 0x2102 \<and> \<not> isspace letterlike 0x2102
          \<and> lower_from_256 letterlike [] 0x2102 [] = [0x2102]"
    by (simp add: isspace_def letterlike_def)
  then have "0x2102 \<in> set (preprocess_text letterlike {} [0x2102])"
    using preprocess_text_clean[of letterlike "{}" "[0x2102]"] by blast
  with ev first sp show ?thesis by blast
qed

text \<open>
  C8 as first stated, for every input string, fails: \<open>lower\<close> leaves an uppercase
  letter that has no lowercase mapping as it is, and so does \<open>preprocess_text\<close>. On
  the one-character string U+2102 the result is the input, an uppercase letter.
\<close>

theorem uppercase_survives:
  "preprocess_text letterlike {} [0x2102] = [0x2102] \<and> isupper letterlike 0x2102"
  by (simp add: preprocess_text_def lower_def lower_char_def remove_punctuation_def
        punctuation_def ascii_def isspace_def isupper_def letterlike_def)

section \<open>Running the notebook\<close>

lemma ascii_eq_iff [simp]: "ascii s = ascii t \<longleftrightarrow> s = t"
  by (simp add: ascii_def inj_map_eq_map inj_on_def)

lemma getitem_setitem [simp]: "getitem (setitem df name vs) name = Inr vs"
  by (simp add: getitem_def setitem_def update_conv')

lemma getitem_setitem_other [simp]:
  "name' \<noteq> name \<Longrightarrow> getitem (setitem df name vs) name' = getitem df name'"
  by (simp add: getitem_def setitem_def update_conv')

lemmas statement_defs =
  load_dataset_def apply_preprocessing_def transform_text_def extract_labels_def split_data_def
  fit_nb_def fit_svm_def predict_nb_def score_nb_accuracy_def score_nb_f1_def
  predict_svm_def score_svm_accuracy_def score_svm_f1_def print_nb_def print_svm_def
  lookup_def and_then_def logged_def
  pd_read_csv_def tfidf_fit_transform_def sk_train_test_split_def nb_fit_def svc_fit_def
  model_predict_def sk_accuracy_score_def sk_f1_score_def

lemmas notebook_simps =
  run_def notebook_def cell1_def cell2_def cell3_def cell4_def fresh_def statement_defs

text \<open>
  A run, case by case: for each call that can raise, the run in which it is the first to
  do so, and the run in which none does. In each case the outcome and the final state of
  the kernel are given in full.
\<close>

lemma run_at_end:
  assumes "read_csv lib w (ascii ''nlp_dataset.csv'') = Inr df"
    and "getitem df (ascii ''Comment'') = Inr comments"
    and "apply_series (call_preprocess_text (unicode_tables lib) (ENGLISH_STOP_WORDS lib))
             comments = Inr processed"
    and "fit_transform lib 500 processed = Inr M"
    and "getitem df (ascii ''Emotion'') = Inr labels"
    and "train_test_split lib w M labels (2 / 10) (Some 42) = Inr (Tr, Te, ltr, lte)"
    and "MultinomialNB_fit lib Tr ltr = Inr nb"
    and "SVC_fit lib (ascii ''linear'') Tr ltr = Inr svm"
    and "predict lib nb Te = Inr p"
    and "accuracy_score lib lte p = Inr a"
    and "f1_score lib lte p (ascii ''weighted'') = Inr f"
    and "predict lib svm Te = Inr p'"
    and "accuracy_score lib lte p' = Inr a'"
    and "f1_score lib lte p' (ascii ''weighted'') = Inr f'"
  shows "run lib w =
           (None,
            fresh\<lparr>trace := statements, calls := library_calls,
                  stdout :=
                    [[Text (ascii ''Naive Bayes - Accuracy:''), Number a,
                      Text (ascii ''F1-Score:''), Number f],
                     [Text (ascii ''SVM - Accuracy:''), Number a',
                      Text (ascii ''F1-Score:''), Number f']],
                  displayed := [svm],
                  dataset := Some (setitem df (ascii ''Processed_Comment'') processed),
                  X := Some M, y := Some labels, X_train := Some Tr, X_test := Some Te,
                  y_train := Some ltr, y_test := Some lte, nb_model := Some nb,
                  svm_model := Some svm, nb_predictions := Some p, nb_accuracy := Some a,
                  nb_f1 := Some f, svm_predictions := Some p', svm_accuracy := Some a',
                  svm_f1 := Some f'\<rparr>)"
  using assms by (simp add: notebook_simps statements_def library_calls_def)

lemma run_cases:
  obtains (raised_load) e
    where
      "read_csv lib w (ascii ''nlp_dataset.csv'') = Inl e"
      "run lib w =
         (Some e,
          fresh\<lparr>trace := [Load]\<rparr>)"
  | (raised_comment) df e
    where
      "read_csv lib w (ascii ''nlp_dataset.csv'') = Inr df"
      "getitem df (ascii ''Comment'') = Inl e"
      "run lib w =
         (Some e,
          fresh\<lparr>trace := [Load, Clean], calls := [Call_read_csv (ascii ''nlp_dataset.csv'')],
                dataset := Some df\<rparr>)"
  | (raised_clean) df comments e
    where
      "read_csv lib w (ascii ''nlp_dataset.csv'') = Inr df"
      "getitem df (ascii ''Comment'') = Inr comments"
      "apply_series (call_preprocess_text (unicode_tables lib) (ENGLISH_STOP_WORDS lib))
           comments = Inl e"
      "run lib w =
         (Some e,
          fresh\<lparr>trace := [Load, Clean], calls := [Call_read_csv (ascii ''nlp_dataset.csv'')],
                dataset := Some df\<rparr>)"
  | (raised_vectorize) df comments processed e
    where
      "read_csv lib w (ascii ''nlp_dataset.csv'') = Inr df"
      "getitem df (ascii ''Comment'') = Inr comments"
      "apply_series (call_preprocess_text (unicode_tables lib) (ENGLISH_STOP_WORDS lib))
           comments = Inr processed"
      "fit_transform lib 500 processed = Inl e"
      "run lib w =
         (Some e,
          fresh\<lparr>trace := [Load, Clean, Vectorize],
                calls := [Call_read_csv (ascii ''nlp_dataset.csv'')],
                dataset := Some (setitem df (ascii ''Processed_Comment'') processed)\<rparr>)"
  | (raised_labels) df comments processed M e
    where
      "read_csv lib w (ascii ''nlp_dataset.csv'') = Inr df"
      "getitem df (ascii ''Comment'') = Inr comments"
      "apply_series (call_preprocess_text (unicode_tables lib) (ENGLISH_STOP_WORDS lib))
           comments = Inr processed"
      "fit_transform lib 500 processed = Inr M"
      "getitem df (ascii ''Emotion'') = Inl e"
      "run lib w =
         (Some e,
          fresh\<lparr>trace := [Load, Clean, Vectorize, Labels],
                calls := [Call_read_csv (ascii ''nlp_dataset.csv''), Call_fit_transform 500],
                dataset := Some (setitem df (ascii ''Processed_Comment'') processed),
                X := Some M\<rparr>)"
  | (raised_split) df comments processed M labels e
    where
      "read_csv lib w (ascii ''nlp_dataset.csv'') = Inr df"
      "getitem df (ascii ''Comment'') = Inr comments"
      "apply_series (call_preprocess_text (unicode_tables lib) (ENGLISH_STOP_WORDS lib))
           comments = Inr processed"
      "fit_transform lib 500 processed = Inr M"
      "getitem df (ascii ''Emotion'') = Inr labels"
      "train_test_split lib w M labels (2 / 10) (Some 42) = Inl e"
      "run lib w =
         (Some e,
          fresh\<lparr>trace := [Load, Clean, Vectorize, Labels, Split],
                calls := [Call_read_csv (ascii ''nlp_dataset.csv''), Call_fit_transform 500],
                dataset := Some (setitem df (ascii ''Processed_Comment'') processed),
                X := Some M, y := Some labels\<rparr>)"
  | (raised_fit_nb) df comments processed M labels Tr Te ltr lte e
    where
      "read_csv lib w (ascii ''nlp_dataset.csv'') = Inr df"
      "getitem df (ascii ''Comment'') = Inr comments"
      "apply_series (call_preprocess_text (unicode_tables lib) (ENGLISH_STOP_WORDS lib))
           comments = Inr processed"
      "fit_transform lib 500 processed = Inr M"
      "getitem df (ascii ''Emotion'') = Inr labels"
      "train_test_split lib w M labels (2 / 10) (Some 42) = Inr (Tr, Te, ltr, lte)"
      "MultinomialNB_fit lib Tr ltr = Inl e"
      "run lib w =
         (Some e,
          fresh\<lparr>trace := [Load, Clean, Vectorize, Labels, Split, FitNB],
                calls := [Call_read_csv (ascii ''nlp_dataset.csv''), Call_fit_transform 500,
                          Call_train_test_split (2 / 10) (Some 42)],
                dataset := Some (setitem df (ascii ''Processed_Comment'') processed),
                X := Some M, y := Some labels, X_train := Some Tr, X_test := Some Te,
                y_train := Some ltr, y_test := Some lte\<rparr>)"
  | (raised_fit_svm) df comments processed M labels Tr Te ltr lte nb e
    where
      "read_csv lib w (ascii ''nlp_dataset.csv'') = Inr df"
      "getitem df (ascii ''Comment'') = Inr comments"
      "apply_series (call_preprocess_text (unicode_tables lib) (ENGLISH_STOP_WORDS lib))
           comments = Inr processed"
      "fit_transform lib 500 processed = Inr M"
      "getitem df (ascii ''Emotion'') = Inr labels"
      "train_test_split lib w M labels (2 / 10) (Some 42) = Inr (Tr, Te, ltr, lte)"
      "MultinomialNB_fit lib Tr ltr = Inr nb"
      "SVC_fit lib (ascii ''linear'') Tr ltr = Inl e"
      "run lib w =
         (Some e,
          fresh\<lparr>trace := [Load, Clean, Vectorize, Labels, Split, FitNB, FitSVM],
                calls := [Call_read_csv (ascii ''nlp_dataset.csv''), Call_fit_transform 500,
                          Call_train_test_split (2 / 10) (Some 42), Call_MultinomialNB_fit],
                dataset := Some (setitem df (ascii ''Processed_Comment'') processed),
                X := Some M, y := Some labels, X_train := Some Tr, X_test := Some Te,
                y_train := Some ltr, y_test := Some lte, nb_model := Some nb\<rparr>)"
  | (raised_predict_nb) df comments processed M labels Tr Te ltr lte nb svm e
    where
      "read_csv lib w (ascii ''nlp_dataset.csv'') = Inr df"
      "getitem df (ascii ''Comment'') = Inr comments"
      "apply_series (call_preprocess_text (unicode_tables lib) (ENGLISH_STOP_WORDS lib))
           comments = Inr processed"
      "fit_transform lib 500 processed = Inr M"
      "getitem df (ascii ''Emotion'') = Inr labels"
      "train_test_split lib w M labels (2 / 10) (Some 42) = Inr (Tr, Te, ltr, lte)"
      "MultinomialNB_fit lib Tr ltr = Inr nb"
      "SVC_fit lib (ascii ''linear'') Tr ltr = Inr svm"
      "predict lib nb Te = Inl e"
      "run lib w =
         (Some e,
          fresh\<lparr>trace := [Load, Clean, Vectorize, Labels, Split, FitNB, FitSVM, PredictNB],
                calls := [Call_read_csv (ascii ''nlp_dataset.csv''), Call_fit_transform 500,
                          Call_train_test_split (2 / 10) (Some 42), Call_MultinomialNB_fit,
                          Call_SVC_fit (ascii ''linear'')],
                displayed := [svm],
                dataset := Some (setitem df (ascii ''Processed_Comment'') processed),
                X := Some M, y := Some labels, X_train := Some Tr, X_test := Some Te,
                y_train := Some ltr, y_test := Some lte, nb_model := Some nb,
                svm_model := Some svm\<rparr>)"
  | (raised_accuracy_nb) df comments processed M labels Tr Te ltr lte nb svm p e
    where
      "read_csv lib w (ascii ''nlp_dataset.csv'') = Inr df"
      "getitem df (ascii ''Comment'') = Inr comments"
      "apply_series (call_preprocess_text (unicode_tables lib) (ENGLISH_STOP_WORDS lib))
           comments = Inr processed"
      "fit_transform lib 500 processed = Inr M"
      "getitem df (ascii ''Emotion'') = Inr labels"
      "train_test_split lib w M labels (2 / 10) (Some 42) = Inr (Tr, Te, ltr, lte)"
      "MultinomialNB_fit lib Tr ltr = Inr nb"
      "SVC_fit lib (ascii ''linear'') Tr ltr = Inr svm"
      "predict lib nb Te = Inr p"
      "accuracy_score lib lte p = Inl e"
      "run lib w =
         (Some e,
          fresh\<lparr>trace := [Load, Clean, Vectorize, Labels, Split, FitNB, FitSVM, PredictNB,
                          AccuracyNB],
                calls := [Call_read_csv (ascii ''nlp_dataset.csv''), Call_fit_transform 500,
                          Call_train_test_split (2 / 10) (Some 42), Call_MultinomialNB_fit,
                          Call_SVC_fit (ascii ''linear''), Call_predict],
                displayed := [svm],
                dataset := Some (setitem df (ascii ''Processed_Comment'') processed),
                X := Some M, y := Some labels, X_train := Some Tr, X_test := Some Te,
                y_train := Some ltr, y_test := Some lte, nb_model := Some nb,
                svm_model := Some svm, nb_predictions := Some p\<rparr>)"
  | (raised_f1_nb) df comments processed M labels Tr Te ltr lte nb svm p a e
    where
      "read_csv lib w (ascii ''nlp_dataset.csv'') = Inr df"
      "getitem df (ascii ''Comment'') = Inr comments"
      "apply_series (call_preprocess_text (unicode_tables lib) (ENGLISH_STOP_WORDS lib))
           comments = Inr processed"
      "fit_transform lib 500 processed = Inr M"
      "getitem df (ascii ''Emotion'') = Inr labels"
      "train_test_split lib w M labels (2 / 10) (Some 42) = Inr (Tr, Te, ltr, lte)"
      "MultinomialNB_fit lib Tr ltr = Inr nb"
      "SVC_fit lib (ascii ''linear'') Tr ltr = Inr svm"
      "predict lib nb Te = Inr p"
      "accuracy_score lib lte p = Inr a"
      "f1_score lib lte p (ascii ''weighted'') = Inl e"
      "run lib w =
         (Some e,
          fresh\<lparr>trace := [Load, Clean, Vectorize, Labels, Split, FitNB, FitSVM, PredictNB,
                          AccuracyNB, F1NB],
                calls := [Call_read_csv (ascii ''nlp_dataset.csv''), Call_fit_transform 500,
                          Call_train_test_split (2 / 10) (Some 42), Call_MultinomialNB_fit,
                          Call_SVC_fit (ascii ''linear''), Call_predict, Call_accuracy_score],
                displayed := [svm],
                dataset := Some (setitem df (ascii ''Processed_Comment'') processed),
                X := Some M, y := Some labels, X_train := Some Tr, X_test := Some Te,
                y_train := Some ltr, y_test := Some lte, nb_model := Some nb,
                svm_model := Some svm, nb_predictions := Some p, nb_accuracy := Some a\<rparr>)"
  | (raised_predict_svm) df comments processed M labels Tr Te ltr lte nb svm p a f e
    where
      "read_csv lib w (ascii ''nlp_dataset.csv'') = Inr df"
      "getitem df (ascii ''Comment'') = Inr comments"
      "apply_series (call_preprocess_text (unicode_tables lib) (ENGLISH_STOP_WORDS lib))
           comments = Inr processed"
      "fit_transform lib 500 processed = Inr M"
      "getitem df (ascii ''Emotion'') = Inr labels"
      "train_test_split lib w M labels (2 / 10) (Some 42) = Inr (Tr, Te, ltr, lte)"
      "MultinomialNB_fit lib Tr ltr = Inr nb"
      "SVC_fit lib (ascii ''linear'') Tr ltr = Inr svm"
      "predict lib nb Te = Inr p"
      "accuracy_score lib lte p = Inr a"
      "f1_score lib lte p (ascii ''weighted'') = Inr f"
      "predict lib svm Te = Inl e"
      "run lib w =
         (Some e,
          fresh\<lparr>trace := [Load, Clean, Vectorize, Labels, Split, FitNB, FitSVM, PredictNB,
                          AccuracyNB, F1NB, PredictSVM],
                calls := [Call_read_csv (ascii ''nlp_dataset.csv''), Call_fit_transform 500,
                          Call_train_test_split (2 / 10) (Some 42), Call_MultinomialNB_fit,
                          Call_SVC_fit (ascii ''linear''), Call_predict, Call_accuracy_score,
                          Call_f1_score (ascii ''weighted'')],
                displayed := [svm],
                dataset := Some (setitem df (ascii ''Processed_Comment'') processed),
                X := Some M, y := Some labels, X_train := Some Tr, X_test := Some Te,
                y_train := Some ltr, y_test := Some lte, nb_model := Some nb,
                svm_model := Some svm, nb_predictions := Some p, nb_accuracy := Some a,
                nb_f1 := Some f\<rparr>)"
  | (raised_accuracy_svm) df comments processed M labels Tr Te ltr lte nb svm p a f p' e
    where
      "read_csv lib w (ascii ''nlp_dataset.csv'') = Inr df"
      "getitem df (ascii ''Comment'') = Inr comments"
      "apply_series (call_preprocess_text (unicode_tables lib) (ENGLISH_STOP_WORDS lib))
           comments = Inr processed"
      "fit_transform lib 500 processed = Inr M"
      "getitem df (ascii ''Emotion'') = Inr labels"
      "train_test_split lib w M labels (2 / 10) (Some 42) = Inr (Tr, Te, ltr, lte)"
      "MultinomialNB_fit lib Tr ltr = Inr nb"
      "SVC_fit lib (ascii ''linear'') Tr ltr = Inr svm"
      "predict lib nb Te = Inr p"
      "accuracy_score lib lte p = Inr a"
      "f1_score lib lte p (ascii ''weighted'') = Inr f"
      "predict lib svm Te = Inr p'"
      "accuracy_score lib lte p' = Inl e"
      "run lib w =
         (Some e,
          fresh\<lparr>trace := [Load, Clean, Vectorize, Labels, Split, FitNB, FitSVM, PredictNB,
                          AccuracyNB, F1NB, PredictSVM, AccuracySVM],
                calls := [Call_read_csv (ascii ''nlp_dataset.csv''), Call_fit_transform 500,
                          Call_train_test_split (2 / 10) (Some 42), Call_MultinomialNB_fit,
                          Call_SVC_fit (ascii ''linear''), Call_predict, Call_accuracy_score,
                          Call_f1_score (ascii ''weighted''), Call_predict],
                displayed := [svm],
                dataset := Some (setitem df (ascii ''Processed_Comment'') processed),
                X := Some M, y := Some labels, X_train := Some Tr, X_test := Some Te,
                y_train := Some ltr, y_test := Some lte, nb_model := Some nb,
                svm_model := Some svm, nb_predictions := Some p, nb_accuracy := Some a,
                nb_f1 := Some f, svm_predictions := Some p'\<rparr>)"
  | (raised_f1_svm) df comments processed M labels Tr Te ltr lte nb svm p a f p' a' e
    where
      "read_csv lib w (ascii ''nlp_dataset.csv'') = Inr df"
      "getitem df (ascii ''Comment'') = Inr comments"
      "apply_series (call_preprocess_text (unicode_tables lib) (ENGLISH_STOP_WORDS lib))
           comments = Inr processed"
      "fit_transform lib 500 processed = Inr M"
      "getitem df (ascii ''Emotion'') = Inr labels"
      "train_test_split lib w M labels (2 / 10) (Some 42) = Inr (Tr, Te, ltr, lte)"
      "MultinomialNB_fit lib Tr ltr = Inr nb"
      "SVC_fit lib (ascii ''linear'') Tr ltr = Inr svm"
      "predict lib nb Te = Inr p"
      "accuracy_score lib lte p = Inr a"
      "f1_score lib lte p (ascii ''weighted'') = Inr f"
      "predict lib svm Te = Inr p'"
      "accuracy_score lib lte p' = Inr a'"
      "f1_score lib lte p' (ascii ''weighted'') = Inl e"
      "run lib w =
         (Some e,
          fresh\<lparr>trace := [Load, Clean, Vectorize, Labels, Split, FitNB, FitSVM, PredictNB,
                          AccuracyNB, F1NB, PredictSVM, AccuracySVM, F1SVM],
                calls := [Call_read_csv (ascii ''nlp_dataset.csv''), Call_fit_transform 500,
                          Call_train_test_split (2 / 10) (Some 42), Call_MultinomialNB_fit,
                          Call_SVC_fit (ascii ''linear''), Call_predict, Call_accuracy_score,
                          Call_f1_score (ascii ''weighted''), Call_predict,
                          Call_accuracy_score],
                displayed := [svm],
                dataset := Some (setitem df (ascii ''Processed_Comment'') processed),
                X := Some M, y := Some labels, X_train := Some Tr, X_test := Some Te,
                y_train := Some ltr, y_test := Some lte, nb_model := Some nb,
                svm_model := Some svm, nb_predictions := Some p, nb_accuracy := Some a,
                nb_f1 := Some f, svm_predictions := Some p', svm_accuracy := Some a'\<rparr>)"
  | (completed) df comments processed M labels Tr Te ltr lte nb svm p a f p' a' f'
    where
      "read_csv lib w (ascii ''nlp_dataset.csv'') = Inr df"
      "getitem df (ascii ''Comment'') = Inr comments"
      "apply_series (call_preprocess_text (unicode_tables lib) (ENGLISH_STOP_WORDS lib))
           comments = Inr processed"
      "fit_transform lib 500 processed = Inr M"
      "getitem df (ascii ''Emotion'') = Inr labels"
      "train_test_split lib w M labels (2 / 10) (Some 42) = Inr (Tr, Te, ltr, lte)"
      "MultinomialNB_fit lib Tr ltr = Inr nb"
      "SVC_fit lib (ascii ''linear'') Tr ltr = Inr svm"
      "predict lib nb Te = Inr p"
      "accuracy_score lib lte p = Inr a"
      "f1_score lib lte p (ascii ''weighted'') = Inr f"
      "predict lib svm Te = Inr p'"
      "accuracy_score lib lte p' = Inr a'"
      "f1_score lib lte p' (ascii ''weighted'') = Inr f'"
      "run lib w =
         (None,
          fresh\<lparr>trace := statements, calls := library_calls,
                stdout :=
                  [[Text (ascii ''Naive Bayes - Accuracy:''), Number a,
                    Text (ascii ''F1-Score:''), Number f],
                   [Text (ascii ''SVM - Accuracy:''), Number a',
                    Text (ascii ''F1-Score:''), Number f']],
                displayed := [svm],
                dataset := Some (setitem df (ascii ''Processed_Comment'') processed),
                X := Some M, y := Some labels, X_train := Some Tr, X_test := Some Te,
                y_train := Some ltr, y_test := Some lte, nb_model := Some nb,
                svm_model := Some svm, nb_predictions := Some p, nb_accuracy := Some a,
                nb_f1 := Some f, svm_predictions := Some p', svm_accuracy := Some a',
                svm_f1 := Some f'\<rparr>)"
proof -
  show ?thesis
  proof (cases "read_csv lib w (ascii ''nlp_dataset.csv'')")
    case hl: (Inl e)
    show ?thesis
      by (rule that(1)[OF  hl]) (insert  hl, simp add: notebook_simps)
  next
    case h0: (Inr df)
    show ?thesis
    proof (cases "getitem df (ascii ''Comment'')")
      case hl: (Inl e)
      show ?thesis
        by (rule that(2)[OF h0 hl]) (insert h0 hl, simp add: notebook_simps)
    next
      case h1: (Inr comments)
      show ?thesis
      proof (cases "apply_series (call_preprocess_text (unicode_tables lib) (ENGLISH_STOP_WORDS lib))
                        comments")
        case hl: (Inl e)
        show ?thesis
          by (rule that(3)[OF h0 h1 hl]) (insert h0 h1 hl, simp add: notebook_simps)
      next
        case h2: (Inr processed)
        show ?thesis
        proof (cases "fit_transform lib 500 processed")
          case hl: (Inl e)
          show ?thesis
            by (rule that(4)[OF h0 h1 h2 hl]) (insert h0 h1 h2 hl, simp add: notebook_simps)
        next
          case h3: (Inr M)
          show ?thesis
          proof (cases "getitem df (ascii ''Emotion'')")
            case hl: (Inl e)
            show ?thesis
              by (rule that(5)[OF h0 h1 h2 h3 hl]) (insert h0 h1 h2 h3 hl, simp add: notebook_simps)
          next
            case h4: (Inr labels)
            show ?thesis
            proof (cases "train_test_split lib w M labels (2 / 10) (Some 42)")
              case hl: (Inl e)
              show ?thesis
                by (rule that(6)[OF h0 h1 h2 h3 h4 hl]) (insert h0 h1 h2 h3 h4 hl, simp add: notebook_simps)
            next
              case (Inr parts)
              then obtain Tr Te ltr lte
                where h5: "train_test_split lib w M labels (2 / 10) (Some 42) = Inr (Tr, Te, ltr, lte)"
                by (cases parts) auto
              show ?thesis
              proof (cases "MultinomialNB_fit lib Tr ltr")
                case hl: (Inl e)
                show ?thesis
                  by (rule that(7)[OF h0 h1 h2 h3 h4 h5 hl]) (insert h0 h1 h2 h3 h4 h5 hl, simp add: notebook_simps)
              next
                case h6: (Inr nb)
                show ?thesis
                proof (cases "SVC_fit lib (ascii ''linear'') Tr ltr")
                  case hl: (Inl e)
                  show ?thesis
                    by (rule that(8)[OF h0 h1 h2 h3 h4 h5 h6 hl]) (insert h0 h1 h2 h3 h4 h5 h6 hl, simp add: notebook_simps)
                next
                  case h7: (Inr svm)
                  show ?thesis
                  proof (cases "predict lib nb Te")
                    case hl: (Inl e)
                    show ?thesis
                      by (rule that(9)[OF h0 h1 h2 h3 h4 h5 h6 h7 hl]) (insert h0 h1 h2 h3 h4 h5 h6 h7 hl, simp add: notebook_simps)
                  next
                    case h8: (Inr p)
                    show ?thesis
                    proof (cases "accuracy_score lib lte p")
                      case hl: (Inl e)
                      show ?thesis
                        by (rule that(10)[OF h0 h1 h2 h3 h4 h5 h6 h7 h8 hl]) (insert h0 h1 h2 h3 h4 h5 h6 h7 h8 hl, simp add: notebook_simps)
                    next
                      case h9: (Inr a)
                      show ?thesis
                      proof (cases "f1_score lib lte p (ascii ''weighted'')")
                        case hl: (Inl e)
                        show ?thesis
                          by (rule that(11)[OF h0 h1 h2 h3 h4 h5 h6 h7 h8 h9 hl]) (insert h0 h1 h2 h3 h4 h5 h6 h7 h8 h9 hl, simp add: notebook_simps)
                      next
                        case h10: (Inr f)
                        show ?thesis
                        proof (cases "predict lib svm Te")
                          case hl: (Inl e)
                          show ?thesis
                            by (rule that(12)[OF h0 h1 h2 h3 h4 h5 h6 h7 h8 h9 h10 hl]) (insert h0 h1 h2 h3 h4 h5 h6 h7 h8 h9 h10 hl, simp add: notebook_simps)
                        next
                          case h11: (Inr p')
                          show ?thesis
                          proof (cases "accuracy_score lib lte p'")
                            case hl: (Inl e)
                            show ?thesis
                              by (rule that(13)[OF h0 h1 h2 h3 h4 h5 h6 h7 h8 h9 h10 h11 hl]) (insert h0 h1 h2 h3 h4 h5 h6 h7 h8 h9 h10 h11 hl, simp add: notebook_simps)
                          next
                            case h12: (Inr a')
                            show ?thesis
                            proof (cases "f1_score lib lte p' (ascii ''weighted'')")
                              case hl: (Inl e)
                              show ?thesis
                                by (rule that(14)[OF h0 h1 h2 h3 h4 h5 h6 h7 h8 h9 h10 h11 h12 hl]) (insert h0 h1 h2 h3 h4 h5 h6 h7 h8 h9 h10 h11 h12 hl, simp add: notebook_simps)
                            next
                              case h13: (Inr f')
                              show ?thesis
                                by (rule that(15)[OF h0 h1 h2 h3 h4 h5 h6 h7 h8 h9 h10 h11 h12 h13 run_at_end[OF h0 h1 h2 h3 h4 h5 h6 h7 h8 h9 h10 h11 h12 h13]])
                            qed
                          qed
                        qed
                      qed
                    qed
                  qed
                qed
              qed
            qed
          qed
        qed
      qed
    qed
  qed
qed

lemma run_trace_prefix: "prefix (trace (snd (run lib w))) statements"
  by (cases rule: run_cases[of lib w]) (simp_all add: statements_def fresh_def)

lemma run_calls_prefix: "prefix (calls (snd (run lib w))) library_calls"
  by (cases rule: run_cases[of lib w]) (simp_all add: library_calls_def fresh_def)

lemma run_completed_trace:
  "completed (run lib w) \<longleftrightarrow> trace (snd (run lib w)) = statements"
  by (cases rule: run_cases[of lib w]) (simp_all add: completed_def statements_def fresh_def)

lemma run_completed_calls:
  "completed (run lib w) \<longleftrightarrow> calls (snd (run lib w)) = library_calls"
  by (cases rule: run_cases[of lib w]) (simp_all add: completed_def library_calls_def fresh_def)

lemma run_stdout:
  "stdout (snd (run lib w)) =
     (if completed (run lib w)
      then [[Text (ascii ''Naive Bayes - Accuracy:''),
             Number (the (nb_accuracy (snd (run lib w)))),
             Text (ascii ''F1-Score:''), Number (the (nb_f1 (snd (run lib w))))],
            [Text (ascii ''SVM - Accuracy:''),
             Number (the (svm_accuracy (snd (run lib w)))),
             Text (ascii ''F1-Score:''), Number (the (svm_f1 (snd (run lib w))))]]
      else [])"
  by (cases rule: run_cases[of lib w]) (simp_all add: completed_def fresh_def)

lemma run_completed_assigned:
  "completed (run lib w) \<longrightarrow>
     X (snd (run lib w)) \<noteq> None \<and> y (snd (run lib w)) \<noteq> None
     \<and> nb_accuracy (snd (run lib w)) \<noteq> None \<and> nb_f1 (snd (run lib w)) \<noteq> None
     \<and> svm_accuracy (snd (run lib w)) \<noteq> None \<and> svm_f1 (snd (run lib w)) \<noteq> None"
  by (cases rule: run_cases[of lib w]) (simp_all add: completed_def fresh_def)

lemma run_displayed:
  "displayed (snd (run lib w))
     = (case svm_model (snd (run lib w)) of None \<Rightarrow> [] | Some m \<Rightarrow> [m])"
  by (cases rule: run_cases[of lib w]) (simp_all add: fresh_def)

lemma run_load_raises:
  "read_csv lib w (ascii ''nlp_dataset.csv'') = Inl e
     \<Longrightarrow> run lib w = (Some e, fresh\<lparr>trace := [Load]\<rparr>)"
  by (simp add: notebook_simps)

lemma run_clean_raises:
  "read_csv lib w (ascii ''nlp_dataset.csv'') = Inr df
     \<Longrightarrow> getitem df (ascii ''Comment'') = Inr comments
     \<Longrightarrow> apply_series (call_preprocess_text (unicode_tables lib) (ENGLISH_STOP_WORDS lib))
           comments = Inl e
     \<Longrightarrow> run lib w
         = (Some e, fresh\<lparr>trace := [Load, Clean],
                          calls := [Call_read_csv (ascii ''nlp_dataset.csv'')],
                          dataset := Some df\<rparr>)"
  by (simp add: notebook_simps)

lemma run_no_comment:
  "read_csv lib w (ascii ''nlp_dataset.csv'') = Inr df
     \<Longrightarrow> getitem df (ascii ''Comment'') = Inl e
     \<Longrightarrow> run lib w
         = (Some e, fresh\<lparr>trace := [Load, Clean],
                          calls := [Call_read_csv (ascii ''nlp_dataset.csv'')],
                          dataset := Some df\<rparr>)"
  by (simp add: notebook_simps)

text \<open>Where the value of a variable comes from.\<close>

lemma from_X:
  "X (snd (run lib w)) = Some M \<longrightarrow>
     (\<exists>df comments processed.
        read_csv lib w (ascii ''nlp_dataset.csv'') = Inr df
        \<and> getitem df (ascii ''Comment'') = Inr comments
        \<and> apply_series (call_preprocess_text (unicode_tables lib) (ENGLISH_STOP_WORDS lib))
              comments = Inr processed
        \<and> dataset (snd (run lib w)) = Some (setitem df (ascii ''Processed_Comment'') processed)
        \<and> fit_transform lib 500 processed = Inr M)"
  by (cases rule: run_cases[of lib w]) (simp_all add: fresh_def)

lemma from_y:
  "y (snd (run lib w)) = Some l \<longrightarrow>
     (\<exists>d. dataset (snd (run lib w)) = Some d \<and> getitem d (ascii ''Emotion'') = Inr l)"
  by (cases rule: run_cases[of lib w]) (simp_all add: fresh_def)

lemma from_split:
  "(X_train (snd (run lib w)) = Some M1 \<or> X_test (snd (run lib w)) = Some M2
    \<or> y_train (snd (run lib w)) = Some l1 \<or> y_test (snd (run lib w)) = Some l2) \<longrightarrow>
     (\<exists>M l M1' M2' l1' l2'.
        X (snd (run lib w)) = Some M \<and> y (snd (run lib w)) = Some l
        \<and> train_test_split lib w M l (2 / 10) (Some 42) = Inr (M1', M2', l1', l2')
        \<and> X_train (snd (run lib w)) = Some M1' \<and> X_test (snd (run lib w)) = Some M2'
        \<and> y_train (snd (run lib w)) = Some l1' \<and> y_test (snd (run lib w)) = Some l2')"
  by (cases rule: run_cases[of lib w]) (simp_all add: fresh_def)

lemma from_predictions:
  "(nb_predictions (snd (run lib w)) = Some p \<longrightarrow>
      (\<exists>m M. nb_model (snd (run lib w)) = Some m \<and> X_test (snd (run lib w)) = Some M
         \<and> predict lib m M = Inr p))
   \<and> (svm_predictions (snd (run lib w)) = Some p' \<longrightarrow>
      (\<exists>m M. svm_model (snd (run lib w)) = Some m \<and> X_test (snd (run lib w)) = Some M
         \<and> predict lib m M = Inr p'))"
  by (cases rule: run_cases[of lib w]) (simp_all add: fresh_def)

lemma from_scores:
  "(nb_accuracy (snd (run lib w)) = Some a \<longrightarrow>
      (\<exists>l p. y_test (snd (run lib w)) = Some l \<and> nb_predictions (snd (run lib w)) = Some p
         \<and> accuracy_score lib l p = Inr a))
   \<and> (nb_f1 (snd (run lib w)) = Some f \<longrightarrow>
      (\<exists>l p. y_test (snd (run lib w)) = Some l \<and> nb_predictions (snd (run lib w)) = Some p
         \<and> f1_score lib l p (ascii ''weighted'') = Inr f))
   \<and> (svm_accuracy (snd (run lib w)) = Some a' \<longrightarrow>
      (\<exists>l p. y_test (snd (run lib w)) = Some l \<and> svm_predictions (snd (run lib w)) = Some p
         \<and> accuracy_score lib l p = Inr a'))
   \<and> (svm_f1 (snd (run lib w)) = Some f' \<longrightarrow>
      (\<exists>l p. y_test (snd (run lib w)) = Some l \<and> svm_predictions (snd (run lib w)) = Some p
         \<and> f1_score lib l p (ascii ''weighted'') = Inr f'))"
  by (cases rule: run_cases[of lib w]) (simp_all add: fresh_def)

text \<open>
  What each statement does, given how far the run has come: it makes its call on the
  values assigned so far; when the call raises, the run ends in this statement with that
  exception; when it returns, the result is assigned.
\<close>

lemma step_load:
  "case read_csv lib w (ascii ''nlp_dataset.csv'') of
     Inl e \<Rightarrow> run lib w = (Some e, fresh\<lparr>trace := [Load]\<rparr>)
   | Inr df \<Rightarrow>
       take 1 (calls (snd (run lib w))) = [Call_read_csv (ascii ''nlp_dataset.csv'')]
       \<and> (dataset (snd (run lib w)) = Some df
          \<or> (\<exists>processed.
                dataset (snd (run lib w)) = Some (setitem df (ascii ''Processed_Comment'') processed)))"
  by (cases rule: run_cases[of lib w]) (auto simp add: fresh_def library_calls_def)

lemma step_clean:
  "\<forall>df. read_csv lib w (ascii ''nlp_dataset.csv'') = Inr df \<longrightarrow>
     (case getitem df (ascii ''Comment'') of
        Inl e \<Rightarrow>
          run lib w
            = (Some e, fresh\<lparr>trace := [Load, Clean],
                             calls := [Call_read_csv (ascii ''nlp_dataset.csv'')],
                             dataset := Some df\<rparr>)
      | Inr comments \<Rightarrow>
          (case apply_series
                  (call_preprocess_text (unicode_tables lib) (ENGLISH_STOP_WORDS lib))
                  comments of
             Inl e \<Rightarrow>
               run lib w
                 = (Some e, fresh\<lparr>trace := [Load, Clean],
                                  calls := [Call_read_csv (ascii ''nlp_dataset.csv'')],
                                  dataset := Some df\<rparr>)
           | Inr processed \<Rightarrow>
               dataset (snd (run lib w)) = Some (setitem df (ascii ''Processed_Comment'') processed)))"
  by (cases rule: run_cases[of lib w]) (simp_all add: fresh_def)

lemma step_vectorize:
  "\<forall>df comments processed.
     read_csv lib w (ascii ''nlp_dataset.csv'') = Inr df
     \<and> getitem df (ascii ''Comment'') = Inr comments
     \<and> apply_series (call_preprocess_text (unicode_tables lib) (ENGLISH_STOP_WORDS lib))
           comments = Inr processed
     \<longrightarrow> (case fit_transform lib 500 processed of
            Inl e \<Rightarrow> fst (run lib w) = Some e \<and> last (trace (snd (run lib w))) = Vectorize \<and> X (snd (run lib w)) = None
          | Inr M \<Rightarrow> X (snd (run lib w)) = Some M)"
  by (cases rule: run_cases[of lib w]) (simp_all add: fresh_def)

lemma step_labels:
  "\<forall>M. X (snd (run lib w)) = Some M \<longrightarrow>
     (\<exists>d. dataset (snd (run lib w)) = Some d
        \<and> (case getitem d (ascii ''Emotion'') of
              Inl e \<Rightarrow> fst (run lib w) = Some e \<and> last (trace (snd (run lib w))) = Labels \<and> y (snd (run lib w)) = None
            | Inr l \<Rightarrow> y (snd (run lib w)) = Some l))"
  by (cases rule: run_cases[of lib w]) (simp_all add: fresh_def)

lemma step_split:
  "\<forall>l. y (snd (run lib w)) = Some l \<longrightarrow>
     (\<exists>M. X (snd (run lib w)) = Some M
        \<and> (case train_test_split lib w M l (2 / 10) (Some 42) of
              Inl e \<Rightarrow>
                fst (run lib w) = Some e \<and> last (trace (snd (run lib w))) = Split
                \<and> X_train (snd (run lib w)) = None \<and> X_test (snd (run lib w)) = None
                \<and> y_train (snd (run lib w)) = None \<and> y_test (snd (run lib w)) = None
            | Inr (Tr, Te, ltr, lte) \<Rightarrow>
                X_train (snd (run lib w)) = Some Tr \<and> X_test (snd (run lib w)) = Some Te
                \<and> y_train (snd (run lib w)) = Some ltr \<and> y_test (snd (run lib w)) = Some lte))"
  by (cases rule: run_cases[of lib w]) (simp_all add: fresh_def)

lemma step_fit_nb:
  "\<forall>Tr. X_train (snd (run lib w)) = Some Tr \<longrightarrow>
     (\<exists>ltr. y_train (snd (run lib w)) = Some ltr
        \<and> (case MultinomialNB_fit lib Tr ltr of
              Inl e \<Rightarrow>
                fst (run lib w) = Some e \<and> last (trace (snd (run lib w))) = FitNB
                \<and> nb_model (snd (run lib w)) = None \<and> svm_model (snd (run lib w)) = None
            | Inr m \<Rightarrow> nb_model (snd (run lib w)) = Some m))"
  by (cases rule: run_cases[of lib w]) (simp_all add: fresh_def)

lemma step_fit_svm:
  "\<forall>m. nb_model (snd (run lib w)) = Some m \<longrightarrow>
     (\<exists>Tr ltr. X_train (snd (run lib w)) = Some Tr \<and> y_train (snd (run lib w)) = Some ltr
        \<and> (case SVC_fit lib (ascii ''linear'') Tr ltr of
              Inl e \<Rightarrow>
                fst (run lib w) = Some e \<and> last (trace (snd (run lib w))) = FitSVM
                \<and> svm_model (snd (run lib w)) = None \<and> displayed (snd (run lib w)) = []
            | Inr m' \<Rightarrow> svm_model (snd (run lib w)) = Some m' \<and> displayed (snd (run lib w)) = [m']))"
  by (cases rule: run_cases[of lib w]) (simp_all add: fresh_def)

lemma step_predict_nb:
  "\<forall>m'. svm_model (snd (run lib w)) = Some m' \<longrightarrow>
     (\<exists>m Te. nb_model (snd (run lib w)) = Some m \<and> X_test (snd (run lib w)) = Some Te
        \<and> (case predict lib m Te of
              Inl e \<Rightarrow>
                fst (run lib w) = Some e \<and> last (trace (snd (run lib w))) = PredictNB \<and> nb_predictions (snd (run lib w)) = None
            | Inr p \<Rightarrow> nb_predictions (snd (run lib w)) = Some p))"
  by (cases rule: run_cases[of lib w]) (simp_all add: fresh_def)

lemma step_accuracy_nb:
  "\<forall>p. nb_predictions (snd (run lib w)) = Some p \<longrightarrow>
     (\<exists>lte. y_test (snd (run lib w)) = Some lte
        \<and> (case accuracy_score lib lte p of
              Inl e \<Rightarrow>
                fst (run lib w) = Some e \<and> last (trace (snd (run lib w))) = AccuracyNB \<and> nb_accuracy (snd (run lib w)) = None
            | Inr a \<Rightarrow> nb_accuracy (snd (run lib w)) = Some a))"
  by (cases rule: run_cases[of lib w]) (simp_all add: fresh_def)

lemma step_f1_nb:
  "\<forall>a. nb_accuracy (snd (run lib w)) = Some a \<longrightarrow>
     (\<exists>lte p. y_test (snd (run lib w)) = Some lte \<and> nb_predictions (snd (run lib w)) = Some p
        \<and> (case f1_score lib lte p (ascii ''weighted'') of
              Inl e \<Rightarrow> fst (run lib w) = Some e \<and> last (trace (snd (run lib w))) = F1NB \<and> nb_f1 (snd (run lib w)) = None
            | Inr f \<Rightarrow> nb_f1 (snd (run lib w)) = Some f))"
  by (cases rule: run_cases[of lib w]) (simp_all add: fresh_def)

lemma step_predict_svm:
  "\<forall>f. nb_f1 (snd (run lib w)) = Some f \<longrightarrow>
     (\<exists>m' Te. svm_model (snd (run lib w)) = Some m' \<and> X_test (snd (run lib w)) = Some Te
        \<and> (case predict lib m' Te of
              Inl e \<Rightarrow>
                fst (run lib w) = Some e \<and> last (trace (snd (run lib w))) = PredictSVM \<and> svm_predictions (snd (run lib w)) = None
            | Inr p' \<Rightarrow> svm_predictions (snd (run lib w)) = Some p'))"
  by (cases rule: run_cases[of lib w]) (simp_all add: fresh_def)

lemma step_accuracy_svm:
  "\<forall>p'. svm_predictions (snd (run lib w)) = Some p' \<longrightarrow>
     (\<exists>lte. y_test (snd (run lib w)) = Some lte
        \<and> (case accuracy_score lib lte p' of
              Inl e \<Rightarrow>
                fst (run lib w) = Some e \<and> last (trace (snd (run lib w))) = AccuracySVM \<and> svm_accuracy (snd (run lib w)) = None
            | Inr a' \<Rightarrow> svm_accuracy (snd (run lib w)) = Some a'))"
  by (cases rule: run_cases[of lib w]) (simp_all add: fresh_def)

lemma step_f1_svm:
  "\<forall>a'. svm_accuracy (snd (run lib w)) = Some a' \<longrightarrow>
     (\<exists>lte p'. y_test (snd (run lib w)) = Some lte \<and> svm_predictions (snd (run lib w)) = Some p'
        \<and> (case f1_score lib lte p' (ascii ''weighted'') of
              Inl e \<Rightarrow> fst (run lib w) = Some e \<and> last (trace (snd (run lib w))) = F1SVM \<and> svm_f1 (snd (run lib w)) = None
            | Inr f' \<Rightarrow> svm_f1 (snd (run lib w)) = Some f'))"
  by (cases rule: run_cases[of lib w]) (simp_all add: fresh_def)

lemma step_print:
  "\<forall>f'. svm_f1 (snd (run lib w)) = Some f' \<longrightarrow>
     (\<exists>a f a'. nb_accuracy (snd (run lib w)) = Some a \<and> nb_f1 (snd (run lib w)) = Some f \<and> svm_accuracy (snd (run lib w)) = Some a'
        \<and> fst (run lib w) = None
        \<and> stdout (snd (run lib w))
            = [[Text (ascii ''Naive Bayes - Accuracy:''), Number a,
                Text (ascii ''F1-Score:''), Number f],
               [Text (ascii ''SVM - Accuracy:''), Number a',
                Text (ascii ''F1-Score:''), Number f']])"
  by (cases rule: run_cases[of lib w]) (simp_all add: fresh_def)

lemma run_ends:
  "read_csv lib w (ascii ''nlp_dataset.csv'') = Inr df
     \<longrightarrow> getitem df (ascii ''Comment'') = Inr comments
     \<longrightarrow> apply_series (call_preprocess_text (unicode_tables lib) (ENGLISH_STOP_WORDS lib))
           comments = Inr processed
     \<longrightarrow> getitem df (ascii ''Emotion'') = Inr labels
     \<longrightarrow> completed (run lib w)
         \<or> (\<exists>e. fst (run lib w) = Some e
               \<and> ((fit_transform lib 500 processed = Inl e \<and> last (trace (snd (run lib w))) = Vectorize)
                    \<or> (\<exists>M. X (snd (run lib w)) = Some M \<and> last (trace (snd (run lib w))) = Split
                          \<and> train_test_split lib w M labels (2 / 10) (Some 42) = Inl e)
                    \<or> (\<exists>Tr ltr. X_train (snd (run lib w)) = Some Tr \<and> y_train (snd (run lib w)) = Some ltr \<and> last (trace (snd (run lib w))) = FitNB
                          \<and> MultinomialNB_fit lib Tr ltr = Inl e)
                    \<or> (\<exists>Tr ltr. X_train (snd (run lib w)) = Some Tr \<and> y_train (snd (run lib w)) = Some ltr \<and> last (trace (snd (run lib w))) = FitSVM
                          \<and> SVC_fit lib (ascii ''linear'') Tr ltr = Inl e)
                    \<or> (\<exists>m Te. nb_model (snd (run lib w)) = Some m \<and> X_test (snd (run lib w)) = Some Te \<and> last (trace (snd (run lib w))) = PredictNB
                          \<and> predict lib m Te = Inl e)
                    \<or> (\<exists>l p. y_test (snd (run lib w)) = Some l \<and> nb_predictions (snd (run lib w)) = Some p \<and> last (trace (snd (run lib w))) = AccuracyNB
                          \<and> accuracy_score lib l p = Inl e)
                    \<or> (\<exists>l p. y_test (snd (run lib w)) = Some l \<and> nb_predictions (snd (run lib w)) = Some p \<and> last (trace (snd (run lib w))) = F1NB
                          \<and> f1_score lib l p (ascii ''weighted'') = Inl e)
                    \<or> (\<exists>m Te. svm_model (snd (run lib w)) = Some m \<and> X_test (snd (run lib w)) = Some Te \<and> last (trace (snd (run lib w))) = PredictSVM
                          \<and> predict lib m Te = Inl e)
                    \<or> (\<exists>l p. y_test (snd (run lib w)) = Some l \<and> svm_predictions (snd (run lib w)) = Some p \<and> last (trace (snd (run lib w))) = AccuracySVM
                          \<and> accuracy_score lib l p = Inl e)
                    \<or> (\<exists>l p. y_test (snd (run lib w)) = Some l \<and> svm_predictions (snd (run lib w)) = Some p \<and> last (trace (snd (run lib w))) = F1SVM
                          \<and> f1_score lib l p (ascii ''weighted'') = Inl e)))"
  by (cases rule: run_cases[of lib w]) (auto simp add: completed_def fresh_def)

lemma run_reads_once:
  "case read_csv lib w (ascii ''nlp_dataset.csv'') of
     Inl e \<Rightarrow> fst (run lib w) = Some e \<and> calls (snd (run lib w)) = []
   | Inr df \<Rightarrow>
       (\<exists>rest. calls (snd (run lib w)) = Call_read_csv (ascii ''nlp_dataset.csv'') # rest
          \<and> (\<forall>path. Call_read_csv path \<notin> set rest))"
  by (cases rule: run_cases[of lib w]) (auto simp add: fresh_def library_calls_def)

lemma run_completed_predictions:
  "completed (run lib w) \<longrightarrow>
     (\<exists>nb svm Te p p'.
        nb_model (snd (run lib w)) = Some nb \<and> svm_model (snd (run lib w)) = Some svm \<and> X_test (snd (run lib w)) = Some Te
        \<and> nb_predictions (snd (run lib w)) = Some p \<and> svm_predictions (snd (run lib w)) = Some p'
        \<and> predict lib nb Te = Inr p \<and> predict lib svm Te = Inr p')"
  by (cases rule: run_cases[of lib w]) (simp_all add: completed_def fresh_def)

lemma run_shows:
  "completed (run lib w) \<longrightarrow>
     calls (snd (run lib w)) = library_calls
     \<and> (\<exists>Tr ltr nb svm Te lte p a f p' a' f'.
           X_train (snd (run lib w)) = Some Tr \<and> y_train (snd (run lib w)) = Some ltr
           \<and> SVC_fit lib (ascii ''linear'') Tr ltr = Inr svm
           \<and> nb_model (snd (run lib w)) = Some nb \<and> svm_model (snd (run lib w)) = Some svm
           \<and> X_test (snd (run lib w)) = Some Te \<and> y_test (snd (run lib w)) = Some lte
           \<and> predict lib nb Te = Inr p
           \<and> accuracy_score lib lte p = Inr a
           \<and> f1_score lib lte p (ascii ''weighted'') = Inr f
           \<and> predict lib svm Te = Inr p'
           \<and> accuracy_score lib lte p' = Inr a'
           \<and> f1_score lib lte p' (ascii ''weighted'') = Inr f'
           \<and> stdout (snd (run lib w))
               = [[Text (ascii ''Naive Bayes - Accuracy:''), Number a,
                   Text (ascii ''F1-Score:''), Number f],
                  [Text (ascii ''SVM - Accuracy:''), Number a',
                   Text (ascii ''F1-Score:''), Number f']]
           \<and> numbers_printed (stdout (snd (run lib w))) = 4
           \<and> displayed (snd (run lib w)) = [svm])"
  by (cases rule: run_cases[of lib w])
    (simp_all add: completed_def fresh_def numbers_printed_def)

lemma apply_series_length: "apply_series f vs = Inr rs \<Longrightarrow> length rs = length vs"
  by (induction vs arbitrary: rs) (auto split: sum.splits)

lemma apply_preprocess_strings:
  "list_all is_str vs \<Longrightarrow> \<exists>rs. apply_series (call_preprocess_text u sw) vs = Inr rs"
proof (induction vs)
  case Nil
  then show ?case by simp
next
  case (Cons v vs)
  then obtain s where "v = Str s" by (cases v) auto
  with Cons show ?case by auto
qed

lemma apply_preprocess_not_string:
  "\<not> list_all is_str vs \<Longrightarrow> apply_series (call_preprocess_text u sw) vs = Inl AttributeError"
proof (induction vs)
  case Nil
  then show ?case by simp
next
  case (Cons v vs)
  show ?case
  proof (cases v)
    case (Str s)
    with Cons show ?thesis by simp
  next
    case (Num n)
    then show ?thesis by simp
  next
    case NaN
    then show ?thesis by simp
  qed
qed

lemma getitem_length: "rectangular df \<Longrightarrow> getitem df name = Inr vs \<Longrightarrow> length vs = n_rows df"
proof -
  assume r: "rectangular df" and g: "getitem df name = Inr vs"
  from g have "map_of df name = Some vs"
    by (simp add: getitem_def split: option.splits)
  then have "(name, vs) \<in> set df" by (rule map_of_SomeD)
  with r show ?thesis by (auto simp: rectangular_def list_all_iff)
qed

section \<open>The small library at work\<close>

lemmas text_eval =
  preprocess_text_def lower_def lower_char_def isupper_def remove_punctuation_def
  punctuation_def isspace_def ascii_def letterlike_def lit_def

lemmas toy_defs =
  toy_library_def toy_read_csv_def toy_fit_transform_def toy_train_test_split_def
  toy_MultinomialNB_fit_def toy_SVC_fit_def toy_predict_def toy_accuracy_score_def
  class_f1_def toy_f1_score_def emotions_def sample_comments_def sample_labels_def

lemma test_rows_of_six: "nat \<lceil>(6 :: rat) / 5\<rceil> = 2"
proof -
  have "\<lceil>(6 :: rat) / 5\<rceil> = 2"
    by (rule ceiling_unique) simp_all
  then show ?thesis by simp
qed

lemma toy_run_result: "run toy_library toy_run = (None, toy_final)"
  by (simp add: notebook_simps toy_defs toy_run_def toy_final_def statements_def
        library_calls_def getitem_def setitem_def text_eval Let_def test_rows_of_six)

lemma toy_read_emotions:
  "read_csv toy_library toy_run (ascii ''nlp_dataset.csv'') = Inr emotions"
  by (simp add: toy_library_def toy_read_csv_def toy_run_def)

lemma toy_rerun_same_file:
  "read_csv toy_library toy_run (ascii ''nlp_dataset.csv'')
     = read_csv toy_library toy_rerun (ascii ''nlp_dataset.csv'')"
  by (simp add: toy_library_def toy_read_csv_def toy_run_def toy_rerun_def)

lemma toy_shaped_fit_transform: "shaped_fit_transform toy_library"
  by (auto simp: shaped_fit_transform_def toy_library_def toy_fit_transform_def split: if_splits)

lemma toy_shaped_predict: "shaped_predict toy_library"
  by (auto simp: shaped_predict_def toy_library_def toy_predict_def)

lemma toy_seeded_split: "seeded_split toy_library"
  by (simp add: seeded_split_def toy_library_def toy_train_test_split_def)

lemma emotions_rectangular: "rectangular emotions" "n_rows emotions = 6"
  by (simp_all add: rectangular_def n_rows_def emotions_def sample_comments_def
        sample_labels_def)

lemma emotions_columns:
  "getitem emotions (ascii ''Comment'') = Inr sample_comments"
  "getitem emotions (ascii ''Emotion'') = Inr sample_labels"
  by (simp_all add: getitem_def emotions_def)

lemma sample_comments_strings: "list_all is_str sample_comments"
  by (simp add: sample_comments_def lit_def)

lemma no_file_raises:
  "read_csv toy_library no_file (ascii ''nlp_dataset.csv'') = Inl FileNotFoundError"
  by (simp add: toy_library_def toy_read_csv_def no_file_def)

lemma other_names_read:
  "read_csv toy_library other_names (ascii ''nlp_dataset.csv'')
     = Inr [(ascii ''text'', sample_comments), (ascii ''label'', sample_labels)]"
  by (simp add: toy_library_def toy_read_csv_def other_names_def)

lemma other_names_no_comment:
  "map_of [(ascii ''text'', sample_comments), (ascii ''label'', sample_labels)]
     (ascii ''Comment'') = None"
  by simp

lemma missing_comment_read:
  "read_csv toy_library missing_comment (ascii ''nlp_dataset.csv'')
     = Inr [(ascii ''Comment'', [lit ''What a joy'', NaN, lit ''Tears and sorrow'']),
            (ascii ''Emotion'', [lit ''joy'', lit ''joy'', lit ''sadness''])]"
  by (simp add: toy_library_def toy_read_csv_def missing_comment_def)

lemma only_stop_words_read:
  "read_csv toy_library only_stop_words (ascii ''nlp_dataset.csv'')
     = Inr [(ascii ''Comment'', [lit ''I am so'', lit ''This is a'']),
            (ascii ''Emotion'', [lit ''joy'', lit ''sadness''])]"
  by (simp add: toy_library_def toy_read_csv_def only_stop_words_def)

lemma only_stop_words_columns:
  "getitem [(ascii ''Comment'', [lit ''I am so'', lit ''This is a'']),
            (ascii ''Emotion'', [lit ''joy'', lit ''sadness''])] (ascii ''Comment'')
     = Inr [lit ''I am so'', lit ''This is a'']"
  "getitem [(ascii ''Comment'', [lit ''I am so'', lit ''This is a'']),
            (ascii ''Emotion'', [lit ''joy'', lit ''sadness''])] (ascii ''Emotion'')
     = Inr [lit ''joy'', lit ''sadness'']"
  "list_all is_str [lit ''I am so'', lit ''This is a'']"
  by (simp_all add: getitem_def lit_def)

lemma only_stop_words_cleaned:
  "apply_series
     (call_preprocess_text (unicode_tables toy_library) (ENGLISH_STOP_WORDS toy_library))
     [lit ''I am so'', lit ''This is a''] = Inr [Str [], Str []]"
  by (simp add: toy_defs text_eval Let_def)

lemma only_stop_words_result:
  "fst (run toy_library only_stop_words) = Some ValueError"
  "trace (snd (run toy_library only_stop_words)) = [Load, Clean, Vectorize]"
  by (simp_all add: notebook_simps toy_defs only_stop_words_def getitem_def setitem_def
        text_eval Let_def)

lemma missing_comment_columns:
  "getitem [(ascii ''Comment'', [lit ''What a joy'', NaN, lit ''Tears and sorrow'']),
            (ascii ''Emotion'', [lit ''joy'', lit ''joy'', lit ''sadness''])]
     (ascii ''Comment'')
     = Inr [lit ''What a joy'', NaN, lit ''Tears and sorrow'']"
  "\<not> list_all is_str [lit ''What a joy'', NaN, lit ''Tears and sorrow'']"
  by (simp_all add: getitem_def)

lemma one_emotion_read:
  "read_csv toy_library one_emotion (ascii ''nlp_dataset.csv'')
     = Inr [(ascii ''Comment'', sample_comments),
            (ascii ''Emotion'',
               [lit ''joy'', lit ''joy'', lit ''joy'', lit ''joy'', lit ''joy'', lit ''joy''])]"
  by (simp add: toy_library_def toy_read_csv_def one_emotion_def)

lemma one_emotion_columns:
  "getitem [(ascii ''Comment'', sample_comments),
            (ascii ''Emotion'',
               [lit ''joy'', lit ''joy'', lit ''joy'', lit ''joy'', lit ''joy'', lit ''joy''])]
     (ascii ''Comment'') = Inr sample_comments"
  "getitem [(ascii ''Comment'', sample_comments),
            (ascii ''Emotion'',
               [lit ''joy'', lit ''joy'', lit ''joy'', lit ''joy'', lit ''joy'', lit ''joy''])]
     (ascii ''Emotion'')
     = Inr [lit ''joy'', lit ''joy'', lit ''joy'', lit ''joy'', lit ''joy'', lit ''joy'']"
  by (simp_all add: getitem_def)

lemma one_emotion_result:
  "fst (run toy_library one_emotion) = Some ValueError"
  "trace (snd (run toy_library one_emotion))
     = [Load, Clean, Vectorize, Labels, Split, FitNB, FitSVM]"
  "nb_model (snd (run toy_library one_emotion)) = Some (lit ''joy'')"
  "svm_model (snd (run toy_library one_emotion)) = None"
  "X_train (snd (run toy_library one_emotion)) = Some [[3], [3], [2], [2]]"
  "y_train (snd (run toy_library one_emotion))
     = Some [lit ''joy'', lit ''joy'', lit ''joy'', lit ''joy'']"
  by (simp_all add: notebook_simps toy_defs one_emotion_def getitem_def setitem_def
        text_eval Let_def test_rows_of_six)

text \<open>The library calls of the run on \<open>toy_run\<close>, one by one.\<close>

lemma toy_cleaned:
  "apply_series
     (call_preprocess_text (unicode_tables toy_library) (ENGLISH_STOP_WORDS toy_library))
     sample_comments
     = Inr [lit ''happy today'', lit ''joy'', lit ''sad sad day'',
            lit ''feeling great joy'', lit ''tears sorrow'', lit ''sun out'']"
  by (simp add: toy_defs text_eval Let_def)

lemma toy_features:
  "fit_transform toy_library 500
     [lit ''happy today'', lit ''joy'', lit ''sad sad day'',
      lit ''feeling great joy'', lit ''tears sorrow'', lit ''sun out'']
     = Inr [[2], [1], [3], [3], [2], [2]]"
  by (simp add: toy_defs text_eval)

lemma toy_split:
  "train_test_split toy_library toy_run [[2], [1], [3], [3], [2], [2]] sample_labels (2 / 10)
     (Some 42)
     = Inr ([[3], [3], [2], [2]], [[2], [1]],
            [lit ''sadness'', lit ''joy'', lit ''sadness'', lit ''joy''],
            [lit ''joy'', lit ''joy''])"
  by (simp add: toy_defs Let_def test_rows_of_six)

lemma toy_models:
  "MultinomialNB_fit toy_library [[3], [3], [2], [2]]
     [lit ''sadness'', lit ''joy'', lit ''sadness'', lit ''joy''] = Inr (lit ''joy'')"
  "SVC_fit toy_library (ascii ''linear'') [[3], [3], [2], [2]]
     [lit ''sadness'', lit ''joy'', lit ''sadness'', lit ''joy''] = Inr (lit ''sadness'')"
  by (simp_all add: toy_defs lit_def ascii_def)

lemma toy_predictions:
  "predict toy_library (lit ''joy'') [[2], [1]] = Inr [lit ''joy'', lit ''joy'']"
  "predict toy_library (lit ''sadness'') [[2], [1]] = Inr [lit ''sadness'', lit ''sadness'']"
  by (simp_all add: toy_defs)

lemma toy_scores:
  "accuracy_score toy_library [lit ''joy'', lit ''joy''] [lit ''joy'', lit ''joy''] = Inr 1"
  "f1_score toy_library [lit ''joy'', lit ''joy''] [lit ''joy'', lit ''joy'']
     (ascii ''weighted'') = Inr 1"
  "accuracy_score toy_library [lit ''joy'', lit ''joy''] [lit ''sadness'', lit ''sadness'']
     = Inr 0"
  "f1_score toy_library [lit ''joy'', lit ''joy''] [lit ''sadness'', lit ''sadness'']
     (ascii ''weighted'') = Inr 0"
  by (simp_all add: toy_defs lit_def ascii_def Let_def)

section \<open>The claims about the pipeline\<close>

text \<open>
  C1, as amended: the notebook is one fixed sequence of statements, and a run goes through
  it from the top, up to its end or to the first exception. The statements the run has
  entered and the library calls that have returned are initial parts of the two fixed
  sequences, in their order, so that none is repeated or retried; and the run completes
  exactly when it has gone through them all. Grouped by code cell the sequence is the four
  steps, once each. Each statement runs exactly when the one before it has returned, on
  the values assigned so far: the cleaning on the comments of the loaded file, the
  vectorizer on the cleaned comments, the split on the features and the labels, Naive
  Bayes and then the SVM on the training part, then for each model the prediction on the
  test part and the two scores against the test labels. When its call raises, the run
  ends in that statement with that exception and the statements after it are skipped;
  when it returns, the result is assigned. When no call raises, the run goes through all
  four steps and ends in the state given first.
\<close>

theorem flat_pipeline:
  fixes lib :: "('w, 'f, 'm) library" and w :: 'w
  defines "out \<equiv> fst (run lib w)" and "s \<equiv> snd (run lib w)"
  shows
    "(\<forall>df comments processed M labels Tr Te ltr lte nb svm p a f p' a' f'.
        read_csv lib w (ascii ''nlp_dataset.csv'') = Inr df
        \<and> getitem df (ascii ''Comment'') = Inr comments
        \<and> apply_series (call_preprocess_text (unicode_tables lib) (ENGLISH_STOP_WORDS lib))
               comments = Inr processed
        \<and> fit_transform lib 500 processed = Inr M
        \<and> getitem df (ascii ''Emotion'') = Inr labels
        \<and> train_test_split lib w M labels (2 / 10) (Some 42) = Inr (Tr, Te, ltr, lte)
        \<and> MultinomialNB_fit lib Tr ltr = Inr nb
        \<and> SVC_fit lib (ascii ''linear'') Tr ltr = Inr svm
        \<and> predict lib nb Te = Inr p
        \<and> accuracy_score lib lte p = Inr a
        \<and> f1_score lib lte p (ascii ''weighted'') = Inr f
        \<and> predict lib svm Te = Inr p'
        \<and> accuracy_score lib lte p' = Inr a'
        \<and> f1_score lib lte p' (ascii ''weighted'') = Inr f'
        \<longrightarrow> run lib w =
              (None,
               fresh\<lparr>trace := statements, calls := library_calls,
                     stdout :=
                       [[Text (ascii ''Naive Bayes - Accuracy:''), Number a,
                         Text (ascii ''F1-Score:''), Number f],
                        [Text (ascii ''SVM - Accuracy:''), Number a',
                         Text (ascii ''F1-Score:''), Number f']],
                     displayed := [svm],
                     dataset := Some (setitem df (ascii ''Processed_Comment'') processed),
                     X := Some M, y := Some labels, X_train := Some Tr, X_test := Some Te,
                     y_train := Some ltr, y_test := Some lte, nb_model := Some nb,
                     svm_model := Some svm, nb_predictions := Some p, nb_accuracy := Some a,
                     nb_f1 := Some f, svm_predictions := Some p', svm_accuracy := Some a',
                     svm_f1 := Some f'\<rparr>))
     \<and> map fst (notebook lib w) = statements
     \<and> distinct statements
     \<and> remdups_adj (map stage_of statements)
         = [Preprocessing, FeatureExtraction, ModelDevelopment, Evaluation]
     \<and> prefix (trace s) statements
     \<and> prefix (calls s) library_calls
     \<and> (completed (run lib w) \<longleftrightarrow> trace s = statements)
     \<and> (completed (run lib w) \<longleftrightarrow> calls s = library_calls)
     \<and> (case read_csv lib w (ascii ''nlp_dataset.csv'') of
           Inl e \<Rightarrow> run lib w = (Some e, fresh\<lparr>trace := [Load]\<rparr>)
         | Inr df \<Rightarrow>
             take 1 (calls s) = [Call_read_csv (ascii ''nlp_dataset.csv'')]
             \<and> (dataset s = Some df
                \<or> (\<exists>processed.
                      dataset s = Some (setitem df (ascii ''Processed_Comment'') processed))))
     \<and> (\<forall>df. read_csv lib w (ascii ''nlp_dataset.csv'') = Inr df \<longrightarrow>
           (case getitem df (ascii ''Comment'') of
              Inl e \<Rightarrow>
                run lib w
                  = (Some e, fresh\<lparr>trace := [Load, Clean],
                                   calls := [Call_read_csv (ascii ''nlp_dataset.csv'')],
                                   dataset := Some df\<rparr>)
            | Inr comments \<Rightarrow>
                (case apply_series
                        (call_preprocess_text (unicode_tables lib) (ENGLISH_STOP_WORDS lib))
                        comments of
                   Inl e \<Rightarrow>
                     run lib w
                       = (Some e, fresh\<lparr>trace := [Load, Clean],
                                        calls := [Call_read_csv (ascii ''nlp_dataset.csv'')],
                                        dataset := Some df\<rparr>)
                 | Inr processed \<Rightarrow>
                     dataset s = Some (setitem df (ascii ''Processed_Comment'') processed))))
     \<and> (\<forall>df comments processed.
           read_csv lib w (ascii ''nlp_dataset.csv'') = Inr df
           \<and> getitem df (ascii ''Comment'') = Inr comments
           \<and> apply_series (call_preprocess_text (unicode_tables lib) (ENGLISH_STOP_WORDS lib))
                 comments = Inr processed
           \<longrightarrow> (case fit_transform lib 500 processed of
                  Inl e \<Rightarrow> out = Some e \<and> last (trace s) = Vectorize \<and> X s = None
                | Inr M \<Rightarrow> X s = Some M))
     \<and> (\<forall>M. X s = Some M \<longrightarrow>
           (\<exists>d. dataset s = Some d
              \<and> (case getitem d (ascii ''Emotion'') of
                    Inl e \<Rightarrow> out = Some e \<and> last (trace s) = Labels \<and> y s = None
                  | Inr l \<Rightarrow> y s = Some l)))
     \<and> (\<forall>l. y s = Some l \<longrightarrow>
           (\<exists>M. X s = Some M
              \<and> (case train_test_split lib w M l (2 / 10) (Some 42) of
                    Inl e \<Rightarrow>
                      out = Some e \<and> last (trace s) = Split
                      \<and> X_train s = None \<and> X_test s = None
                      \<and> y_train s = None \<and> y_test s = None
                  | Inr (Tr, Te, ltr, lte) \<Rightarrow>
                      X_train s = Some Tr \<and> X_test s = Some Te
                      \<and> y_train s = Some ltr \<and> y_test s = Some lte)))
     \<and> (\<forall>Tr. X_train s = Some Tr \<longrightarrow>
           (\<exists>ltr. y_train s = Some ltr
              \<and> (case MultinomialNB_fit lib Tr ltr of
                    Inl e \<Rightarrow>
                      out = Some e \<and> last (trace s) = FitNB
                      \<and> nb_model s = None \<and> svm_model s = None
                  | Inr m \<Rightarrow> nb_model s = Some m)))
     \<and> (\<forall>m. nb_model s = Some m \<longrightarrow>
           (\<exists>Tr ltr. X_train s = Some Tr \<and> y_train s = Some ltr
              \<and> (case SVC_fit lib (ascii ''linear'') Tr ltr of
                    Inl e \<Rightarrow>
                      out = Some e \<and> last (trace s) = FitSVM
                      \<and> svm_model s = None \<and> displayed s = []
                  | Inr m' \<Rightarrow> svm_model s = Some m' \<and> displayed s = [m'])))
     \<and> (\<forall>m'. svm_model s = Some m' \<longrightarrow>
           (\<exists>m Te. nb_model s = Some m \<and> X_test s = Some Te
              \<and> (case predict lib m Te of
                    Inl e \<Rightarrow>
                      out = Some e \<and> last (trace s) = PredictNB \<and> nb_predictions s = None
                  | Inr p \<Rightarrow> nb_predictions s = Some p)))
     \<and> (\<forall>p. nb_predictions s = Some p \<longrightarrow>
           (\<exists>lte. y_test s = Some lte
              \<and> (case accuracy_score lib lte p of
                    Inl e \<Rightarrow>
                      out = Some e \<and> last (trace s) = AccuracyNB \<and> nb_accuracy s = None
                  | Inr a \<Rightarrow> nb_accuracy s = Some a)))
     \<and> (\<forall>a. nb_accuracy s = Some a \<longrightarrow>
           (\<exists>lte p. y_test s = Some lte \<and> nb_predictions s = Some p
              \<and> (case f1_score lib lte p (ascii ''weighted'') of
                    Inl e \<Rightarrow> out = Some e \<and> last (trace s) = F1NB \<and> nb_f1 s = None
                  | Inr f \<Rightarrow> nb_f1 s = Some f)))
     \<and> (\<forall>f. nb_f1 s = Some f \<longrightarrow>
           (\<exists>m' Te. svm_model s = Some m' \<and> X_test s = Some Te
              \<and> (case predict lib m' Te of
                    Inl e \<Rightarrow>
                      out = Some e \<and> last (trace s) = PredictSVM \<and> svm_predictions s = None
                  | Inr p' \<Rightarrow> svm_predictions s = Some p')))
     \<and> (\<forall>p'. svm_predictions s = Some p' \<longrightarrow>
           (\<exists>lte. y_test s = Some lte
              \<and> (case accuracy_score lib lte p' of
                    Inl e \<Rightarrow>
                      out = Some e \<and> last (trace s) = AccuracySVM \<and> svm_accuracy s = None
                  | Inr a' \<Rightarrow> svm_accuracy s = Some a')))
     \<and> (\<forall>a'. svm_accuracy s = Some a' \<longrightarrow>
           (\<exists>lte p'. y_test s = Some lte \<and> svm_predictions s = Some p'
              \<and> (case f1_score lib lte p' (ascii ''weighted'') of
                    Inl e \<Rightarrow> out = Some e \<and> last (trace s) = F1SVM \<and> svm_f1 s = None
                  | Inr f' \<Rightarrow> svm_f1 s = Some f')))
     \<and> (\<forall>f'. svm_f1 s = Some f' \<longrightarrow>
           (\<exists>a f a'. nb_accuracy s = Some a \<and> nb_f1 s = Some f \<and> svm_accuracy s = Some a'
              \<and> out = None
              \<and> stdout s
                  = [[Text (ascii ''Naive Bayes - Accuracy:''), Number a,
                      Text (ascii ''F1-Score:''), Number f],
                     [Text (ascii ''SVM - Accuracy:''), Number a',
                      Text (ascii ''F1-Score:''), Number f']]))"
proof -
  have c1: "map fst (notebook lib w) = statements"
    by (simp add: notebook_def cell1_def cell2_def cell3_def cell4_def statements_def)
  have c2: "distinct statements"
    by (simp add: statements_def)
  have c3: "remdups_adj (map stage_of statements)
              = [Preprocessing, FeatureExtraction, ModelDevelopment, Evaluation]"
    by (simp add: statements_def)
  note facts =
    c1 c2 c3 run_trace_prefix[of lib w] run_calls_prefix[of lib w]
    run_completed_trace[of lib w] run_completed_calls[of lib w]
    step_load[of lib w] step_clean[of lib w] step_vectorize[of lib w] step_labels[of lib w]
    step_split[of lib w] step_fit_nb[of lib w] step_fit_svm[of lib w]
    step_predict_nb[of lib w] step_accuracy_nb[of lib w] step_f1_nb[of lib w]
    step_predict_svm[of lib w] step_accuracy_svm[of lib w] step_f1_svm[of lib w]
    step_print[of lib w]
  show ?thesis
    unfolding out_def s_def
    apply (rule conjI)
     apply (intro allI impI, elim conjE, rule run_at_end; assumption)
    apply (insert facts, intro conjI; assumption)
    done
qed

theorem flat_pipeline_witness:
  "run toy_library toy_run = (None, toy_final)"
proof -
  have "read_csv toy_library toy_run (ascii ''nlp_dataset.csv'') = Inr emotions
        \<and> getitem emotions (ascii ''Comment'') = Inr sample_comments
        \<and> apply_series
            (call_preprocess_text (unicode_tables toy_library) (ENGLISH_STOP_WORDS toy_library))
            sample_comments
            = Inr [lit ''happy today'', lit ''joy'', lit ''sad sad day'',
                   lit ''feeling great joy'', lit ''tears sorrow'', lit ''sun out'']
        \<and> fit_transform toy_library 500
            [lit ''happy today'', lit ''joy'', lit ''sad sad day'',
             lit ''feeling great joy'', lit ''tears sorrow'', lit ''sun out'']
            = Inr [[2], [1], [3], [3], [2], [2]]
        \<and> getitem emotions (ascii ''Emotion'') = Inr sample_labels
        \<and> train_test_split toy_library toy_run [[2], [1], [3], [3], [2], [2]] sample_labels
            (2 / 10) (Some 42)
            = Inr ([[3], [3], [2], [2]], [[2], [1]],
                   [lit ''sadness'', lit ''joy'', lit ''sadness'', lit ''joy''],
                   [lit ''joy'', lit ''joy''])
        \<and> MultinomialNB_fit toy_library [[3], [3], [2], [2]]
            [lit ''sadness'', lit ''joy'', lit ''sadness'', lit ''joy''] = Inr (lit ''joy'')
        \<and> SVC_fit toy_library (ascii ''linear'') [[3], [3], [2], [2]]
            [lit ''sadness'', lit ''joy'', lit ''sadness'', lit ''joy''] = Inr (lit ''sadness'')
        \<and> predict toy_library (lit ''joy'') [[2], [1]] = Inr [lit ''joy'', lit ''joy'']
        \<and> accuracy_score toy_library [lit ''joy'', lit ''joy''] [lit ''joy'', lit ''joy'']
            = Inr 1
        \<and> f1_score toy_library [lit ''joy'', lit ''joy''] [lit ''joy'', lit ''joy'']
            (ascii ''weighted'') = Inr 1
        \<and> predict toy_library (lit ''sadness'') [[2], [1]]
            = Inr [lit ''sadness'', lit ''sadness'']
        \<and> accuracy_score toy_library [lit ''joy'', lit ''joy'']
            [lit ''sadness'', lit ''sadness''] = Inr 0
        \<and> f1_score toy_library [lit ''joy'', lit ''joy''] [lit ''sadness'', lit ''sadness'']
            (ascii ''weighted'') = Inr 0"
    by (intro conjI toy_read_emotions emotions_columns toy_cleaned toy_features toy_split
          toy_models toy_predictions toy_scores)
  from flat_pipeline[of toy_library toy_run, THEN conjunct1, rule_format, OF this]
  show ?thesis
    by (simp add: toy_final_def fresh_def setitem_def emotions_def)
qed

text \<open>
  C1 as first stated, an unconditional sequence in which no step is skipped or
  conditioned on the result of another, fails: on a file with an empty comment field
  the cleaning step raises, and the run ends there. The text is never vectorized, and
  no classifier is fitted or scored.
\<close>

theorem later_steps_skipped:
  "fst (run toy_library missing_comment) = Some AttributeError
   \<and> trace (snd (run toy_library missing_comment)) = [Load, Clean]
   \<and> calls (snd (run toy_library missing_comment)) = [Call_read_csv (ascii ''nlp_dataset.csv'')]
   \<and> X (snd (run toy_library missing_comment)) = None
   \<and> nb_model (snd (run toy_library missing_comment)) = None
   \<and> svm_model (snd (run toy_library missing_comment)) = None
   \<and> nb_predictions (snd (run toy_library missing_comment)) = None
   \<and> svm_predictions (snd (run toy_library missing_comment)) = None
   \<and> stdout (snd (run toy_library missing_comment)) = []
   \<and> \<not> completed (run toy_library missing_comment)"
proof -
  have "run toy_library missing_comment
          = (Some AttributeError,
             fresh\<lparr>trace := [Load, Clean],
                   calls := [Call_read_csv (ascii ''nlp_dataset.csv'')],
                   dataset :=
                     Some [(ascii ''Comment'', [lit ''What a joy'', NaN, lit ''Tears and sorrow'']),
                           (ascii ''Emotion'', [lit ''joy'', lit ''joy'', lit ''sadness''])]\<rparr>)"
    using missing_comment_read missing_comment_columns(1)
      apply_preprocess_not_string[OF missing_comment_columns(2)]
    by (rule run_clean_raises)
  then show ?thesis
    by (simp add: fresh_def completed_def)
qed

text \<open>
  C2: a run that completes has printed exactly two lines, the Naive Bayes line first and
  the SVM line second; each carries the accuracy and the weighted F1 score of that
  model's predictions on the test rows, computed against the test labels of the split.
\<close>

theorem two_result_lines:
  assumes "completed (run lib w)"
  shows "\<exists>a f a' f' M l M1 M2 l1 l2 m m' p p'.
           stdout (snd (run lib w))
             = [[Text (ascii ''Naive Bayes - Accuracy:''), Number a,
                 Text (ascii ''F1-Score:''), Number f],
                [Text (ascii ''SVM - Accuracy:''), Number a',
                 Text (ascii ''F1-Score:''), Number f']]
           \<and> train_test_split lib w M l (2 / 10) (Some 42) = Inr (M1, M2, l1, l2)
           \<and> nb_model (snd (run lib w)) = Some m \<and> svm_model (snd (run lib w)) = Some m'
           \<and> predict lib m M2 = Inr p \<and> predict lib m' M2 = Inr p'
           \<and> accuracy_score lib l2 p = Inr a
           \<and> f1_score lib l2 p (ascii ''weighted'') = Inr f
           \<and> accuracy_score lib l2 p' = Inr a'
           \<and> f1_score lib l2 p' (ascii ''weighted'') = Inr f'"
proof -
  let ?s = "snd (run lib w)"
  from assms run_completed_assigned[of lib w]
  obtain a f a' f'
    where v: "nb_accuracy ?s = Some a" "nb_f1 ?s = Some f"
             "svm_accuracy ?s = Some a'" "svm_f1 ?s = Some f'"
    by auto
  have out: "stdout ?s
               = [[Text (ascii ''Naive Bayes - Accuracy:''), Number a,
                   Text (ascii ''F1-Score:''), Number f],
                  [Text (ascii ''SVM - Accuracy:''), Number a',
                   Text (ascii ''F1-Score:''), Number f']]"
    using assms v by (simp add: run_stdout)
  from from_scores[of lib w a f a' f'] v
  obtain l2 p p'
    where sc: "y_test ?s = Some l2" "nb_predictions ?s = Some p" "svm_predictions ?s = Some p'"
      "accuracy_score lib l2 p = Inr a" "f1_score lib l2 p (ascii ''weighted'') = Inr f"
      "accuracy_score lib l2 p' = Inr a'" "f1_score lib l2 p' (ascii ''weighted'') = Inr f'"
    by auto
  from from_predictions[of lib w p p'] sc(2,3)
  obtain m m' M2
    where pr: "nb_model ?s = Some m" "svm_model ?s = Some m'" "X_test ?s = Some M2"
      "predict lib m M2 = Inr p" "predict lib m' M2 = Inr p'"
    by auto
  from from_split[of lib w _ M2 _ l2] pr(3) sc(1)
  obtain M l M1 l1
    where "train_test_split lib w M l (2 / 10) (Some 42) = Inr (M1, M2, l1, l2)"
    by auto
  with out sc pr show ?thesis by blast
qed

theorem two_result_lines_witness:
  "stdout (snd (run toy_library toy_run))
     = [[Text (ascii ''Naive Bayes - Accuracy:''), Number 1,
         Text (ascii ''F1-Score:''), Number 1],
        [Text (ascii ''SVM - Accuracy:''), Number 0,
         Text (ascii ''F1-Score:''), Number 0]]"
proof -
  have c: "completed (run toy_library toy_run)"
    by (simp add: toy_run_result completed_def)
  have "nb_accuracy (snd (run toy_library toy_run)) = Some 1"
    "nb_f1 (snd (run toy_library toy_run)) = Some 1"
    "svm_accuracy (snd (run toy_library toy_run)) = Some 0"
    "svm_f1 (snd (run toy_library toy_run)) = Some 0"
    by (simp_all add: toy_run_result toy_final_def)
  with two_result_lines[OF c] from_scores[of toy_library toy_run] show ?thesis
    by (auto simp: toy_run_result toy_final_def)
qed

text \<open>
  C3, as amended: on a file with a column named \<open>Comment\<close> whose values are all strings
  and a column named \<open>Emotion\<close>, no statement of the notebook's own raises: the cleaning
  returns, and the run completes unless one of the scikit-learn calls it makes raises;
  then the run ends in the statement of that call, with the exception the call raised on
  the values the run had assigned. And those two names are required: on a file without a
  column of either name the run does not complete.
\<close>

theorem named_columns_complete:
  fixes lib :: "('w, 'f, 'm) library" and w :: 'w
  defines "out \<equiv> fst (run lib w)" and "s \<equiv> snd (run lib w)"
  shows
    "(\<forall>df comments labels.
        read_csv lib w (ascii ''nlp_dataset.csv'') = Inr df
        \<and> getitem df (ascii ''Comment'') = Inr comments \<and> list_all is_str comments
        \<and> getitem df (ascii ''Emotion'') = Inr labels
        \<longrightarrow> (\<exists>processed.
               apply_series
                 (call_preprocess_text (unicode_tables lib) (ENGLISH_STOP_WORDS lib)) comments
                 = Inr processed
               \<and> (completed (run lib w)
                  \<or> (\<exists>e. out = Some e
                        \<and> ((fit_transform lib 500 processed = Inl e \<and> last (trace s) = Vectorize)
                            \<or> (\<exists>M. X s = Some M \<and> last (trace s) = Split
                                  \<and> train_test_split lib w M labels (2 / 10) (Some 42) = Inl e)
                            \<or> (\<exists>Tr ltr. X_train s = Some Tr \<and> y_train s = Some ltr \<and> last (trace s) = FitNB
                                  \<and> MultinomialNB_fit lib Tr ltr = Inl e)
                            \<or> (\<exists>Tr ltr. X_train s = Some Tr \<and> y_train s = Some ltr \<and> last (trace s) = FitSVM
                                  \<and> SVC_fit lib (ascii ''linear'') Tr ltr = Inl e)
                            \<or> (\<exists>m Te. nb_model s = Some m \<and> X_test s = Some Te \<and> last (trace s) = PredictNB
                                  \<and> predict lib m Te = Inl e)
                            \<or> (\<exists>l p. y_test s = Some l \<and> nb_predictions s = Some p \<and> last (trace s) = AccuracyNB
                                  \<and> accuracy_score lib l p = Inl e)
                            \<or> (\<exists>l p. y_test s = Some l \<and> nb_predictions s = Some p \<and> last (trace s) = F1NB
                                  \<and> f1_score lib l p (ascii ''weighted'') = Inl e)
                            \<or> (\<exists>m Te. svm_model s = Some m \<and> X_test s = Some Te \<and> last (trace s) = PredictSVM
                                  \<and> predict lib m Te = Inl e)
                            \<or> (\<exists>l p. y_test s = Some l \<and> svm_predictions s = Some p \<and> last (trace s) = AccuracySVM
                                  \<and> accuracy_score lib l p = Inl e)
                            \<or> (\<exists>l p. y_test s = Some l \<and> svm_predictions s = Some p \<and> last (trace s) = F1SVM
                                  \<and> f1_score lib l p (ascii ''weighted'') = Inl e))))))
     \<and> (\<forall>df.
          read_csv lib w (ascii ''nlp_dataset.csv'') = Inr df
          \<and> (map_of df (ascii ''Comment'') = None \<or> map_of df (ascii ''Emotion'') = None)
          \<longrightarrow> \<not> completed (run lib w))"
  unfolding out_def s_def
proof (intro conjI allI impI, goal_cases)
  case (1 df comments labels)
  then have rd: "read_csv lib w (ascii ''nlp_dataset.csv'') = Inr df"
    and col: "getitem df (ascii ''Comment'') = Inr comments"
    and strs: "list_all is_str comments"
    and lab: "getitem df (ascii ''Emotion'') = Inr labels"
    by simp_all
  obtain processed
    where ap: "apply_series
                 (call_preprocess_text (unicode_tables lib) (ENGLISH_STOP_WORDS lib)) comments
                 = Inr processed"
    using apply_preprocess_strings[OF strs] by blast
  note ends = run_ends[of lib w df comments processed labels, rule_format, OF rd col ap lab]
  show ?case
    by (rule exI[of _ processed], rule conjI[OF ap ends])
next
  case (2 df)
  then have rd: "read_csv lib w (ascii ''nlp_dataset.csv'') = Inr df"
    and m: "map_of df (ascii ''Comment'') = None \<or> map_of df (ascii ''Emotion'') = None"
    by simp_all
  show ?case
  proof
    assume "completed (run lib w)"
    then have "y (snd (run lib w)) \<noteq> None \<and> X (snd (run lib w)) \<noteq> None"
      using run_completed_assigned[of lib w] by simp
    then obtain l M where l: "y (snd (run lib w)) = Some l" and M: "X (snd (run lib w)) = Some M"
      by auto
    from from_X[of lib w M] M rd
    obtain comments processed
      where c: "getitem df (ascii ''Comment'') = Inr comments"
        and d: "dataset (snd (run lib w))
                  = Some (setitem df (ascii ''Processed_Comment'') processed)"
      by auto
    from from_y[of lib w l] l d
    have e: "getitem (setitem df (ascii ''Processed_Comment'') processed) (ascii ''Emotion'')
               = Inr l"
      by auto
    from c have "map_of df (ascii ''Comment'') \<noteq> None"
      by (simp add: getitem_def split: option.splits)
    moreover from e have "map_of df (ascii ''Emotion'') \<noteq> None"
      by (simp add: getitem_def setitem_def update_conv' split: option.splits)
    ultimately show False using m by auto
  qed
qed

theorem named_columns_complete_witness:
  "fst (run toy_library one_emotion) = Some ValueError
   \<and> last (trace (snd (run toy_library one_emotion))) = FitSVM
   \<and> SVC_fit toy_library (ascii ''linear'') [[3], [3], [2], [2]]
        [lit ''joy'', lit ''joy'', lit ''joy'', lit ''joy''] = Inl ValueError
   \<and> fst (run toy_library only_stop_words) = Some ValueError
   \<and> last (trace (snd (run toy_library only_stop_words))) = Vectorize
   \<and> fit_transform toy_library 500 [Str [], Str []] = Inl ValueError
   \<and> completed (run toy_library toy_run)
   \<and> \<not> completed (run toy_library other_names)"
proof -
  have "SVC_fit toy_library (ascii ''linear'') [[3], [3], [2], [2]]
          [lit ''joy'', lit ''joy'', lit ''joy'', lit ''joy''] = Inl ValueError"
    using named_columns_complete[of toy_library one_emotion] one_emotion_read
      one_emotion_columns sample_comments_strings
    by (auto simp add: one_emotion_result completed_def)
  moreover have "fit_transform toy_library 500 [Str [], Str []] = Inl ValueError"
    using named_columns_complete[of toy_library only_stop_words] only_stop_words_read
      only_stop_words_columns only_stop_words_cleaned
    by (auto simp add: only_stop_words_result completed_def)
  moreover have "\<not> completed (run toy_library other_names)"
    using named_columns_complete[of toy_library other_names] other_names_read
      other_names_no_comment
    by blast
  moreover have "completed (run toy_library toy_run)"
    by (simp add: toy_run_result completed_def)
  ultimately show ?thesis
    by (simp add: one_emotion_result only_stop_words_result)
qed

text \<open>
  C3 as first stated, with no condition on the names, fails: on a file of two columns,
  the comments and their emotion labels under the names \<open>text\<close> and \<open>label\<close>, the
  run ends in the cleaning statement with a \<open>KeyError\<close>.
\<close>

theorem other_names_fail:
  "read_csv toy_library other_names (ascii ''nlp_dataset.csv'')
     = Inr [(ascii ''text'', sample_comments), (ascii ''label'', sample_labels)]
   \<and> list_all is_str sample_comments
   \<and> fst (run toy_library other_names) = Some (KeyError (ascii ''Comment''))
   \<and> trace (snd (run toy_library other_names)) = [Load, Clean]
   \<and> stdout (snd (run toy_library other_names)) = []
   \<and> \<not> completed (run toy_library other_names)"
proof -
  have "run toy_library other_names
          = (Some (KeyError (ascii ''Comment'')),
             fresh\<lparr>trace := [Load, Clean],
                   calls := [Call_read_csv (ascii ''nlp_dataset.csv'')],
                   dataset := Some [(ascii ''text'', sample_comments),
                                    (ascii ''label'', sample_labels)]\<rparr>)"
    by (rule run_no_comment[OF other_names_read]) (simp add: getitem_def)
  then show ?thesis
    using other_names_read sample_comments_strings by (simp add: completed_def fresh_def)
qed

text \<open>
  C4: nothing catches an exception. When \<open>read_csv\<close> raises (the file is missing), the
  run ends there with that exception and no variable assigned; when a value of the
  comment column is not a string, the run ends in the cleaning statement with the
  \<open>AttributeError\<close> of the call; and a run that ends with an exception, wherever it
  was raised, has printed no line.
\<close>

theorem failures_propagate:
  "(\<forall>e. read_csv lib w (ascii ''nlp_dataset.csv'') = Inl e
          \<longrightarrow> run lib w = (Some e, fresh\<lparr>trace := [Load]\<rparr>))
   \<and> (\<forall>df comments.
          read_csv lib w (ascii ''nlp_dataset.csv'') = Inr df
          \<and> getitem df (ascii ''Comment'') = Inr comments \<and> \<not> list_all is_str comments
          \<longrightarrow> run lib w
              = (Some AttributeError,
                 fresh\<lparr>trace := [Load, Clean],
                       calls := [Call_read_csv (ascii ''nlp_dataset.csv'')],
                       dataset := Some df\<rparr>))
   \<and> (\<forall>e. fst (run lib w) = Some e \<longrightarrow> stdout (snd (run lib w)) = [])
   \<and> stdout (fresh :: ('f, 'm) state) = []"
proof -
  have "run lib w
          = (Some AttributeError,
             fresh\<lparr>trace := [Load, Clean],
                   calls := [Call_read_csv (ascii ''nlp_dataset.csv'')],
                   dataset := Some df\<rparr>)"
    if "read_csv lib w (ascii ''nlp_dataset.csv'') = Inr df"
       "getitem df (ascii ''Comment'') = Inr comments" "\<not> list_all is_str comments"
    for df comments
    using that(1,2) apply_preprocess_not_string[OF that(3)] by (rule run_clean_raises)
  moreover have "stdout (snd (run lib w)) = []" if "fst (run lib w) = Some e" for e
    using that by (simp add: run_stdout completed_def)
  moreover have "stdout (fresh :: ('f, 'm) state) = []"
    by (simp add: fresh_def)
  ultimately show ?thesis
    using run_load_raises[of lib w] by blast
qed

theorem failures_propagate_witness:
  "fst (run toy_library no_file) = Some FileNotFoundError
   \<and> stdout (snd (run toy_library no_file)) = []
   \<and> fst (run toy_library missing_comment) = Some AttributeError
   \<and> stdout (snd (run toy_library missing_comment)) = []"
proof -
  have c: "getitem [(ascii ''Comment'', [lit ''What a joy'', NaN, lit ''Tears and sorrow'']),
                    (ascii ''Emotion'', [lit ''joy'', lit ''joy'', lit ''sadness''])]
             (ascii ''Comment'')
             = Inr [lit ''What a joy'', NaN, lit ''Tears and sorrow'']"
    by (simp add: getitem_def)
  have d: "\<not> list_all is_str [lit ''What a joy'', NaN, lit ''Tears and sorrow'']"
    by simp
  have "run toy_library no_file = (Some FileNotFoundError, fresh\<lparr>trace := [Load]\<rparr>)"
    using failures_propagate[of toy_library no_file] no_file_raises by blast
  moreover have "fst (run toy_library missing_comment) = Some AttributeError"
    using failures_propagate[of toy_library missing_comment] missing_comment_read c d
    by (metis fst_conv)
  moreover have "stdout (snd (run toy_library missing_comment)) = []"
    using failures_propagate[of toy_library missing_comment] calculation(2) by blast
  ultimately show ?thesis
    by (simp add: fresh_def)
qed

text \<open>
  C5: whenever \<open>X\<close> is assigned it has as many rows as the loaded dataset, given that
  \<open>fit_transform\<close> returns one row per document as scikit-learn documents it. The
  notebook's part is that the processed column has one entry per row of the file.
\<close>

theorem feature_rows:
  assumes "shaped_fit_transform lib"
    and "read_csv lib w (ascii ''nlp_dataset.csv'') = Inr df"
    and "rectangular df"
    and "X (snd (run lib w)) = Some M"
  shows "length M = n_rows df"
proof -
  from from_X[of lib w M] assms(2,4)
  obtain comments processed
    where c: "getitem df (ascii ''Comment'') = Inr comments"
      and p: "apply_series (call_preprocess_text (unicode_tables lib) (ENGLISH_STOP_WORDS lib))
                comments = Inr processed"
      and f: "fit_transform lib 500 processed = Inr M"
    by auto
  have "length M = length processed"
    using assms(1) f unfolding shaped_fit_transform_def by blast
  also have "\<dots> = length comments"
    using p by (rule apply_series_length)
  also have "\<dots> = n_rows df"
    using assms(3) c by (rule getitem_length)
  finally show ?thesis .
qed

theorem feature_rows_witness:
  "X (snd (run toy_library toy_run)) = Some [[2], [1], [3], [3], [2], [2]]
   \<and> length [[2], [1], [3], [3], [2], [2 :: rat]] = n_rows emotions
   \<and> n_rows emotions = 6"
proof -
  have x: "X (snd (run toy_library toy_run)) = Some [[2], [1], [3], [3], [2], [2]]"
    by (simp add: toy_run_result toy_final_def)
  show ?thesis
    using feature_rows[OF toy_shaped_fit_transform toy_read_emotions emotions_rectangular(1) x]
      emotions_rectangular(2) x
    by simp
qed

text \<open>
  C6: each of the two models predicts on \<open>X_test\<close>, the test part of the split made
  with \<open>test_size=0.2\<close>. Once both models are fitted, \<open>nb_model\<close> predicts on
  \<open>X_test\<close>, and once the Naive Bayes scores are there, \<open>svm_model\<close> does; what the
  call returns is assigned, and it has as many labels as \<open>X_test\<close> has rows, given that
  \<open>predict\<close> returns one label per row as scikit-learn documents it. In a run that
  completes both lists of predictions are there, each of that length.
\<close>

theorem prediction_counts:
  fixes lib :: "('w, 'f, 'm) library" and w :: 'w
  assumes "shaped_predict lib"
  defines "out \<equiv> fst (run lib w)" and "s \<equiv> snd (run lib w)"
  shows
    "(\<forall>m'. svm_model s = Some m' \<longrightarrow>
        (\<exists>m Te. nb_model s = Some m \<and> X_test s = Some Te
           \<and> (case predict lib m Te of
                 Inl e \<Rightarrow> out = Some e \<and> nb_predictions s = None
               | Inr p \<Rightarrow> nb_predictions s = Some p \<and> length p = length Te)))
     \<and> (\<forall>f. nb_f1 s = Some f \<longrightarrow>
          (\<exists>m' Te. svm_model s = Some m' \<and> X_test s = Some Te
             \<and> (case predict lib m' Te of
                   Inl e \<Rightarrow> out = Some e \<and> svm_predictions s = None
                 | Inr p' \<Rightarrow> svm_predictions s = Some p' \<and> length p' = length Te)))
     \<and> (\<forall>Te. X_test s = Some Te \<longrightarrow>
          (\<exists>M l Tr ltr lte.
             X s = Some M \<and> y s = Some l
             \<and> train_test_split lib w M l (2 / 10) (Some 42) = Inr (Tr, Te, ltr, lte)))
     \<and> (\<forall>p. nb_predictions s = Some p \<or> svm_predictions s = Some p \<longrightarrow>
          (\<exists>Te. X_test s = Some Te \<and> length p = length Te))
     \<and> (completed (run lib w) \<longrightarrow>
          (\<exists>Te p p'.
             X_test s = Some Te \<and> nb_predictions s = Some p \<and> svm_predictions s = Some p'
             \<and> length p = length Te \<and> length p' = length Te))"
  unfolding out_def s_def
proof (intro conjI allI impI, goal_cases)
  let ?s = "snd (run lib w)"
  have len: "length p = length M" if "predict lib m M = Inr p" for m M p
    using assms that unfolding shaped_predict_def by blast
  {
    case (1 m')
    with step_predict_nb[of lib w]
    obtain m Te
      where a: "nb_model ?s = Some m" "X_test ?s = Some Te"
        and b: "case predict lib m Te of
                  Inl e \<Rightarrow> fst (run lib w) = Some e \<and> last (trace ?s) = PredictNB
                           \<and> nb_predictions ?s = None
                | Inr p \<Rightarrow> nb_predictions ?s = Some p"
      by blast
    from b have "case predict lib m Te of
                   Inl e \<Rightarrow> fst (run lib w) = Some e \<and> nb_predictions ?s = None
                 | Inr p \<Rightarrow> nb_predictions ?s = Some p \<and> length p = length Te"
      using len[of m Te] by (cases "predict lib m Te") simp_all
    with a show ?case by blast
  next
    case (2 f)
    with step_predict_svm[of lib w]
    obtain m' Te
      where a: "svm_model ?s = Some m'" "X_test ?s = Some Te"
        and b: "case predict lib m' Te of
                  Inl e \<Rightarrow> fst (run lib w) = Some e \<and> last (trace ?s) = PredictSVM
                           \<and> svm_predictions ?s = None
                | Inr p' \<Rightarrow> svm_predictions ?s = Some p'"
      by blast
    from b have "case predict lib m' Te of
                   Inl e \<Rightarrow> fst (run lib w) = Some e \<and> svm_predictions ?s = None
                 | Inr p' \<Rightarrow> svm_predictions ?s = Some p' \<and> length p' = length Te"
      using len[of m' Te] by (cases "predict lib m' Te") simp_all
    with a show ?case by blast
  next
    case (3 Te)
    with from_split[of lib w _ Te] show ?case by auto
  next
    case (4 p)
    with from_predictions[of lib w p p] len show ?case by auto
  next
    case 5
    with run_completed_predictions[of lib w]
    obtain nb svm Te p p'
      where "X_test ?s = Some Te" "nb_predictions ?s = Some p" "svm_predictions ?s = Some p'"
        "predict lib nb Te = Inr p" "predict lib svm Te = Inr p'"
      by blast
    with len show ?case by blast
  }
qed

theorem prediction_counts_witness:
  "X_test (snd (run toy_library toy_run)) = Some [[2], [1]]
   \<and> nb_predictions (snd (run toy_library toy_run)) = Some [lit ''joy'', lit ''joy'']
   \<and> svm_predictions (snd (run toy_library toy_run)) = Some [lit ''sadness'', lit ''sadness'']
   \<and> length [lit ''joy'', lit ''joy''] = length [[2], [1 :: rat]]
   \<and> length [lit ''sadness'', lit ''sadness''] = length [[2], [1 :: rat]]"
proof -
  have v: "svm_model (snd (run toy_library toy_run)) = Some (lit ''sadness'')"
    "nb_model (snd (run toy_library toy_run)) = Some (lit ''joy'')"
    "nb_f1 (snd (run toy_library toy_run)) = Some 1"
    "X_test (snd (run toy_library toy_run)) = Some [[2], [1]]"
    by (simp_all add: toy_run_result toy_final_def)
  from prediction_counts[OF toy_shaped_predict, of toy_run] v toy_predictions
  show ?thesis
    by (auto split: sum.splits)
qed

text \<open>
  C7, as amended: all a run of the notebook shows is this. It reads one CSV file,
  \<open>nlp_dataset.csv\<close>, first of all and once; the library calls that return are an
  initial part of one fixed sequence, in its order, and all of it when the run completes.
  A run that completes has printed two lines of two numbers each, four numbers in all:
  for each model the accuracy and the weighted F1 score of its predictions on the test
  part against the test labels; and it has displayed one value, the fitted SVM estimator,
  which is the value of the last statement of the third cell. A run that does not
  complete has printed nothing.
\<close>

theorem observable_behaviour:
  fixes lib :: "('w, 'f, 'm) library" and w :: 'w
  defines "out \<equiv> fst (run lib w)" and "s \<equiv> snd (run lib w)"
  shows
    "prefix (calls s) library_calls
     \<and> library_calls =
         [Call_read_csv (ascii ''nlp_dataset.csv''), Call_fit_transform 500,
          Call_train_test_split (2 / 10) (Some 42), Call_MultinomialNB_fit,
          Call_SVC_fit (ascii ''linear''),
          Call_predict, Call_accuracy_score, Call_f1_score (ascii ''weighted''),
          Call_predict, Call_accuracy_score, Call_f1_score (ascii ''weighted'')]
     \<and> (case read_csv lib w (ascii ''nlp_dataset.csv'') of
           Inl e \<Rightarrow> out = Some e \<and> calls s = []
         | Inr df \<Rightarrow>
             (\<exists>rest. calls s = Call_read_csv (ascii ''nlp_dataset.csv'') # rest
                \<and> (\<forall>path. Call_read_csv path \<notin> set rest)))
     \<and> (completed (run lib w) \<longrightarrow>
          calls s = library_calls
          \<and> (\<exists>Tr ltr nb svm Te lte p a f p' a' f'.
                X_train s = Some Tr \<and> y_train s = Some ltr
                \<and> SVC_fit lib (ascii ''linear'') Tr ltr = Inr svm
                \<and> nb_model s = Some nb \<and> svm_model s = Some svm
                \<and> X_test s = Some Te \<and> y_test s = Some lte
                \<and> predict lib nb Te = Inr p
                \<and> accuracy_score lib lte p = Inr a
                \<and> f1_score lib lte p (ascii ''weighted'') = Inr f
                \<and> predict lib svm Te = Inr p'
                \<and> accuracy_score lib lte p' = Inr a'
                \<and> f1_score lib lte p' (ascii ''weighted'') = Inr f'
                \<and> stdout s
                    = [[Text (ascii ''Naive Bayes - Accuracy:''), Number a,
                        Text (ascii ''F1-Score:''), Number f],
                       [Text (ascii ''SVM - Accuracy:''), Number a',
                        Text (ascii ''F1-Score:''), Number f']]
                \<and> numbers_printed (stdout s) = 4
                \<and> displayed s = [svm]))
     \<and> (\<not> completed (run lib w) \<longrightarrow> stdout s = [])
     \<and> displayed s = (case svm_model s of None \<Rightarrow> [] | Some m \<Rightarrow> [m])"
proof -
  have "library_calls =
         [Call_read_csv (ascii ''nlp_dataset.csv''), Call_fit_transform 500,
          Call_train_test_split (2 / 10) (Some 42), Call_MultinomialNB_fit,
          Call_SVC_fit (ascii ''linear''),
          Call_predict, Call_accuracy_score, Call_f1_score (ascii ''weighted''),
          Call_predict, Call_accuracy_score, Call_f1_score (ascii ''weighted'')]"
    by (simp add: library_calls_def)
  moreover have "\<not> completed (run lib w) \<longrightarrow> stdout (snd (run lib w)) = []"
    by (simp add: run_stdout)
  moreover note run_calls_prefix[of lib w] run_reads_once[of lib w] run_shows[of lib w]
    run_displayed[of lib w]
  ultimately show ?thesis
    unfolding out_def s_def by (intro conjI)
qed

theorem observable_behaviour_witness:
  "stdout (snd (run toy_library toy_run))
     = [[Text (ascii ''Naive Bayes - Accuracy:''), Number 1,
         Text (ascii ''F1-Score:''), Number 1],
        [Text (ascii ''SVM - Accuracy:''), Number 0,
         Text (ascii ''F1-Score:''), Number 0]]
   \<and> numbers_printed (stdout (snd (run toy_library toy_run))) = 4
   \<and> displayed (snd (run toy_library toy_run)) = [lit ''sadness'']
   \<and> calls (snd (run toy_library toy_run)) = library_calls
   \<and> calls (snd (run toy_library no_file)) = []
   \<and> stdout (snd (run toy_library no_file)) = []"
proof -
  have c: "completed (run toy_library toy_run)"
    by (simp add: toy_run_result completed_def)
  have n: "\<not> completed (run toy_library no_file)"
    using no_file_raises by (simp add: run_load_raises completed_def)
  have v: "nb_model (snd (run toy_library toy_run)) = Some (lit ''joy'')"
    "svm_model (snd (run toy_library toy_run)) = Some (lit ''sadness'')"
    "X_test (snd (run toy_library toy_run)) = Some [[2], [1]]"
    "y_test (snd (run toy_library toy_run)) = Some [lit ''joy'', lit ''joy'']"
    by (simp_all add: toy_run_result toy_final_def)
  from observable_behaviour[of toy_library toy_run] c v toy_predictions toy_scores
  have "stdout (snd (run toy_library toy_run))
          = [[Text (ascii ''Naive Bayes - Accuracy:''), Number 1,
              Text (ascii ''F1-Score:''), Number 1],
             [Text (ascii ''SVM - Accuracy:''), Number 0,
              Text (ascii ''F1-Score:''), Number 0]]
        \<and> numbers_printed (stdout (snd (run toy_library toy_run))) = 4
        \<and> displayed (snd (run toy_library toy_run)) = [lit ''sadness'']
        \<and> calls (snd (run toy_library toy_run)) = library_calls"
    by auto
  moreover from observable_behaviour[of toy_library no_file] n no_file_raises
  have "calls (snd (run toy_library no_file)) = []
        \<and> stdout (snd (run toy_library no_file)) = []"
    by auto
  ultimately show ?thesis by blast
qed

text \<open>
  C7 as first stated, with two numbers printed and nothing else shown, fails: a run that
  completes prints four numbers, and the fitted SVM estimator is displayed.
\<close>

theorem four_numbers_printed:
  "completed (run toy_library toy_run)
   \<and> stdout (snd (run toy_library toy_run))
       = [[Text (ascii ''Naive Bayes - Accuracy:''), Number 1,
           Text (ascii ''F1-Score:''), Number 1],
          [Text (ascii ''SVM - Accuracy:''), Number 0,
           Text (ascii ''F1-Score:''), Number 0]]
   \<and> numbers_printed (stdout (snd (run toy_library toy_run))) = 4
   \<and> numbers_printed (stdout (snd (run toy_library toy_run))) \<noteq> 2
   \<and> displayed (snd (run toy_library toy_run)) = [lit ''sadness'']"
  by (simp add: toy_run_result toy_final_def completed_def numbers_printed_def)

text \<open>
  C9: whenever \<open>X\<close> is assigned, none of its rows has more than 500 columns, since the
  vectorizer is built with \<open>max_features=500\<close> and scikit-learn documents that bound
  on the vocabulary.
\<close>

theorem feature_columns:
  assumes "shaped_fit_transform lib"
    and "X (snd (run lib w)) = Some M"
  shows "\<forall>row \<in> set M. length row \<le> 500"
proof -
  from from_X[of lib w M] assms(2)
  obtain processed where "fit_transform lib 500 processed = Inr M"
    by auto
  with assms(1) show ?thesis
    unfolding shaped_fit_transform_def by blast
qed

theorem feature_columns_witness:
  "X (snd (run toy_library toy_run)) = Some [[2], [1], [3], [3], [2], [2]]
   \<and> list_all (\<lambda>row. length row \<le> 500) [[2], [1], [3], [3], [2], [2 :: rat]]"
proof -
  have x: "X (snd (run toy_library toy_run)) = Some [[2], [1], [3], [3], [2], [2]]"
    by (simp add: toy_run_result toy_final_def)
  show ?thesis
    using feature_columns[OF toy_shaped_fit_transform x] x by (simp add: list_all_iff)
qed

text \<open>
  C10: two runs on the same file contents end in the same state of the kernel: the same
  split, the same fitted models and predictions, the same scores and the same printed
  lines, whatever the state of the process-wide random generator. What the notebook adds
  is the seed: \<open>train_test_split\<close> is the only call that could consult that generator,
  and it is passed \<open>random_state=42\<close>.
\<close>

theorem deterministic_runs:
  assumes "seeded_split lib"
    and "read_csv lib w (ascii ''nlp_dataset.csv'') = read_csv lib w' (ascii ''nlp_dataset.csv'')"
  shows "run lib w = run lib w'"
proof -
  have "train_test_split lib w M l (2 / 10) (Some 42)
          = train_test_split lib w' M l (2 / 10) (Some 42)" for M l
    using assms(1) unfolding seeded_split_def by blast
  then have "split_data lib w = split_data lib w'"
    by (simp add: split_data_def sk_train_test_split_def fun_eq_iff)
  moreover have "load_dataset lib w = load_dataset lib w'"
    using assms(2) by (simp add: load_dataset_def pd_read_csv_def fun_eq_iff)
  ultimately show ?thesis
    by (simp add: run_def notebook_def cell1_def cell3_def)
qed

theorem deterministic_runs_witness:
  "run toy_library toy_run = run toy_library toy_rerun \<and> rng toy_run \<noteq> rng toy_rerun"
  using deterministic_runs[OF toy_seeded_split toy_rerun_same_file]
  by (simp add: toy_run_def toy_rerun_def)

end
